theory Spec2Isabelle
  imports Main "HOL-Library.Sublist"
begin

section \<open>Values of the handlers package\<close>

text \<open>
  A Go \<open>[]byte\<close> is a list of 8-bit characters; a nil slice and an empty slice are
  both the empty list (the handlers only pass slices on and write them out, and
  writing either one writes no byte). A non-nil Go \<open>error\<close> is represented by the
  text its \<open>Error()\<close> method returns, the only thing the handlers read from it; a
  nil error is \<open>None\<close>.
\<close>

type_synonym bytes = string
type_synonym error = string

text \<open>
  The contexts the handlers build. \<open>RequestContext\<close> is \<open>r.Context()\<close>,
  \<open>Background\<close> is \<open>context.Background()\<close>; a duration is a number of nanoseconds.
\<close>

datatype Context = Background | RequestContext | WithTimeout Context int

definition Second :: int where
  "Second = 1000000000"

text \<open>The two non-nil values \<open>ctx.Err()\<close> can return.\<close>

datatype ContextError = Canceled | DeadlineExceeded

text \<open>
  What a handler reads from the request: the path value \<open>name\<close>, and the value that
  \<open>ctx.Err()\<close> has at the moment line 139 of handlers.go reads it (the clock and the
  client's connection are outside the program, so that value is an input).
\<close>

record Request =
  PathValue_name :: string
  ctx_Err :: "ContextError option"

text \<open>The JSON envelope \<open>Response\<close>; \<open>Data\<close> is nil or a \<open>map[string]string\<close>.\<close>

record Response =
  Success :: bool
  Message :: string
  Data :: "(string \<rightharpoonup> string) option"

datatype Body = JSON Response | Raw bytes

text \<open>
  What a handler leaves in the fresh \<open>http.ResponseWriter\<close> it is given: every path
  of every handler sets headers, writes the status once and writes one body.
\<close>

record HTTPResponse =
  StatusCode :: nat
  Header :: "string \<rightharpoonup> string"
  Body :: Body

abbreviation StatusOK :: nat where "StatusOK \<equiv> 200"
abbreviation StatusBadRequest :: nat where "StatusBadRequest \<equiv> 400"
abbreviation StatusNotFound :: nat where "StatusNotFound \<equiv> 404"
abbreviation StatusInternalServerError :: nat where "StatusInternalServerError \<equiv> 500"
abbreviation StatusServiceUnavailable :: nat where "StatusServiceUnavailable \<equiv> 503"
abbreviation StatusGatewayTimeout :: nat where "StatusGatewayTimeout \<equiv> 504"

section \<open>Response shaping\<close>

text \<open>\<open>writeJSON\<close>: the envelopes written here always encode, so no encoding error is logged.\<close>

definition writeJSON :: "nat \<Rightarrow> Response \<Rightarrow> HTTPResponse" where
  "writeJSON status data =
     \<lparr>StatusCode = status,
      Header = [''Content-Type'' \<mapsto> ''application/json''],
      Body = JSON data\<rparr>"

text \<open>
  \<open>filepath.Ext\<close> of the Go standard library, with the Unix path separator: the loop
  \<open>for i := len(path) - 1; i >= 0 && path[i] != '/'; i--\<close> that returns \<open>path[i:]\<close> at
  the first dot it meets and the empty string when it ends. The counter of
  \<open>Ext_loop\<close> is \<open>i + 1\<close>.
\<close>

fun Ext_loop :: "string \<Rightarrow> nat \<Rightarrow> string" where
  "Ext_loop path 0 = []"
| "Ext_loop path (Suc i) =
     (if path ! i = CHR ''/'' then []
      else if path ! i = CHR ''.'' then drop i path
      else Ext_loop path i)"

definition Ext :: "string \<Rightarrow> string" where
  "Ext path = Ext_loop path (length path)"

text \<open>
  \<open>writeFileResponse\<close>. The table behind \<open>mime.TypeByExtension\<close> is not part of the
  repository (the Go library builds it from built-in entries and from files of the
  host), so it is the parameter \<open>TypeByExtension\<close>: a function from an extension to
  a content type, the empty string when it has none. The table of the Go library
  itself is \<open>mime_TypeByExtension\<close>, at the end of the definitions.
\<close>

definition writeFileResponse :: "(string \<Rightarrow> string) \<Rightarrow> string \<Rightarrow> bytes \<Rightarrow> HTTPResponse" where
  "writeFileResponse TypeByExtension filename data =
     (let contentType = TypeByExtension (Ext filename);
          contentType = (if contentType = [] then ''application/octet-stream'' else contentType)
      in \<lparr>StatusCode = StatusOK,
          Header = [''Content-Type'' \<mapsto> contentType,
                    ''Content-Disposition'' \<mapsto> ''inline; filename=\"'' @ filename @ ''\"''],
          Body = Raw data\<rparr>)"

text \<open>\<open>strings.Contains\<close>: \<open>substr\<close> occurs in \<open>s\<close> at some position.\<close>

fun Contains :: "string \<Rightarrow> string \<Rightarrow> bool" where
  "Contains [] substr = (substr = [])"
| "Contains (c # s) substr = (prefix substr (c # s) \<or> Contains s substr)"

definition isNotFoundError :: "error \<Rightarrow> bool" where
  "isNotFoundError err = (Contains err ''NoSuchKey'' \<or> Contains err ''not found'')"

section \<open>The ports\<close>

text \<open>
  The interfaces \<open>cache.Cache\<close> and \<open>storage.Storage\<close>. An implementation is a record
  of operations on a state of its own (\<open>'c\<close>, \<open>'s\<close>): each takes the state and returns
  its results with the new state. The state type is arbitrary, so it can hold
  whatever decides the answers of a backend that is not a function of its past.
  \<open>PutObject\<close> receives, for its \<open>io.Reader\<close>, what \<open>io.ReadAll\<close> gives on it.
\<close>

record 'c Cache =
  Cache_Get :: "Context \<Rightarrow> string \<Rightarrow> 'c \<Rightarrow> (bytes \<times> bool \<times> error option) \<times> 'c"
  Cache_Set :: "Context \<Rightarrow> string \<Rightarrow> bytes \<Rightarrow> 'c \<Rightarrow> error option \<times> 'c"
  Cache_Ping :: "Context \<Rightarrow> 'c \<Rightarrow> error option \<times> 'c"
  Cache_Close :: "'c \<Rightarrow> error option \<times> 'c"

record 's Storage =
  Storage_GetObject :: "Context \<Rightarrow> string \<Rightarrow> 's \<Rightarrow> (bytes \<times> error option) \<times> 's"
  Storage_PutObject :: "Context \<Rightarrow> string \<Rightarrow> error + bytes \<Rightarrow> string \<Rightarrow> 's \<Rightarrow> error option \<times> 's"
  Storage_DeleteObject :: "Context \<Rightarrow> string \<Rightarrow> 's \<Rightarrow> error option \<times> 's"
  Storage_ObjectExists :: "Context \<Rightarrow> string \<Rightarrow> 's \<Rightarrow> (bool \<times> error option) \<times> 's"
  Storage_HealthCheck :: "Context \<Rightarrow> 's \<Rightarrow> error option \<times> 's"

text \<open>\<open>FileHandler\<close>: the cache field is an interface value that may be nil.\<close>

record ('c, 's) FileHandler =
  cache :: "'c Cache option"
  storage :: "'s Storage"

definition NewFileHandler :: "'c Cache option \<Rightarrow> 's Storage \<Rightarrow> ('c, 's) FileHandler" where
  "NewFileHandler c s = \<lparr>cache = c, storage = s\<rparr>"

section \<open>Everything a handler can change\<close>

text \<open>
  The state of the two backends, the log written through \<open>slog\<close>, the counters of the
  metrics package, the goroutines started and not yet run, and a record of every
  port method invoked, in order (written at each call site below and nowhere else).
  The histograms of the metrics package observe elapsed wall-clock time as floating
  point seconds and are left out.
\<close>

datatype PortCall =
    CacheGet string
  | CacheSet string bytes
  | CachePing
  | StorageGetObject string
  | StorageHealthCheck

datatype Level = INFO | ERROR

type_synonym LogRecord = "Level \<times> string \<times> (string \<times> string) list"

text \<open>A started goroutine: the closure of \<open>GetFile\<close> with its captured \<open>filename\<close> and \<open>data\<close>.\<close>

datatype Goroutine = WriteBack string bytes

record Metrics =
  CacheHitsTotal :: nat
  CacheMissesTotal :: nat
  R2RequestsTotal :: "string \<times> string \<Rightarrow> nat"

record ('c, 's) World =
  cacheState :: 'c
  storageState :: 's
  portCalls :: "PortCall list"
  slog :: "LogRecord list"
  metrics :: Metrics
  goroutines :: "Goroutine list"

definition slog_Info :: "string \<Rightarrow> (string \<times> string) list \<Rightarrow> ('c, 's) World \<Rightarrow> ('c, 's) World" where
  "slog_Info msg args w = w\<lparr>slog := slog w @ [(INFO, msg, args)]\<rparr>"

definition slog_Error :: "string \<Rightarrow> (string \<times> string) list \<Rightarrow> ('c, 's) World \<Rightarrow> ('c, 's) World" where
  "slog_Error msg args w = w\<lparr>slog := slog w @ [(ERROR, msg, args)]\<rparr>"

definition CacheHitsTotal_Inc :: "('c, 's) World \<Rightarrow> ('c, 's) World" where
  "CacheHitsTotal_Inc w = w\<lparr>metrics := (metrics w)\<lparr>CacheHitsTotal := CacheHitsTotal (metrics w) + 1\<rparr>\<rparr>"

definition CacheMissesTotal_Inc :: "('c, 's) World \<Rightarrow> ('c, 's) World" where
  "CacheMissesTotal_Inc w = w\<lparr>metrics := (metrics w)\<lparr>CacheMissesTotal := CacheMissesTotal (metrics w) + 1\<rparr>\<rparr>"

definition R2RequestsTotal_Inc :: "string \<Rightarrow> string \<Rightarrow> ('c, 's) World \<Rightarrow> ('c, 's) World" where
  "R2RequestsTotal_Inc operation status w =
     w\<lparr>metrics := (metrics w)\<lparr>R2RequestsTotal :=
        (R2RequestsTotal (metrics w))((operation, status) := R2RequestsTotal (metrics w) (operation, status) + 1)\<rparr>\<rparr>"

text \<open>The call sites: a port method runs on its backend's state and the call is recorded.\<close>

definition call_Get ::
  "'c Cache \<Rightarrow> Context \<Rightarrow> string \<Rightarrow> ('c, 's) World \<Rightarrow> (bytes \<times> bool \<times> error option) \<times> ('c, 's) World" where
  "call_Get c ctx key w =
     (let (res, cs) = Cache_Get c ctx key (cacheState w)
      in (res, w\<lparr>cacheState := cs, portCalls := portCalls w @ [CacheGet key]\<rparr>))"

definition call_Set ::
  "'c Cache \<Rightarrow> Context \<Rightarrow> string \<Rightarrow> bytes \<Rightarrow> ('c, 's) World \<Rightarrow> error option \<times> ('c, 's) World" where
  "call_Set c ctx key data w =
     (let (err, cs) = Cache_Set c ctx key data (cacheState w)
      in (err, w\<lparr>cacheState := cs, portCalls := portCalls w @ [CacheSet key data]\<rparr>))"

definition call_Ping :: "'c Cache \<Rightarrow> Context \<Rightarrow> ('c, 's) World \<Rightarrow> error option \<times> ('c, 's) World" where
  "call_Ping c ctx w =
     (let (err, cs) = Cache_Ping c ctx (cacheState w)
      in (err, w\<lparr>cacheState := cs, portCalls := portCalls w @ [CachePing]\<rparr>))"

definition call_GetObject ::
  "'s Storage \<Rightarrow> Context \<Rightarrow> string \<Rightarrow> ('c, 's) World \<Rightarrow> (bytes \<times> error option) \<times> ('c, 's) World" where
  "call_GetObject s ctx key w =
     (let (res, ss) = Storage_GetObject s ctx key (storageState w)
      in (res, w\<lparr>storageState := ss, portCalls := portCalls w @ [StorageGetObject key]\<rparr>))"

definition call_HealthCheck :: "'s Storage \<Rightarrow> Context \<Rightarrow> ('c, 's) World \<Rightarrow> error option \<times> ('c, 's) World" where
  "call_HealthCheck s ctx w =
     (let (err, ss) = Storage_HealthCheck s ctx (storageState w)
      in (err, w\<lparr>storageState := ss, portCalls := portCalls w @ [StorageHealthCheck]\<rparr>))"

section \<open>The handlers\<close>

text \<open>\<open>Health\<close> (handlers.go, lines 41 to 78).\<close>

definition Health :: "('c, 's) FileHandler \<Rightarrow> ('c, 's) World \<Rightarrow> HTTPResponse \<times> ('c, 's) World" where
  "Health h w0 =
     (let ctx = WithTimeout RequestContext (5 * Second);
          health = [''status'' \<mapsto> ''healthy''];
          (health, w1) =
            (case cache h of
               Some c \<Rightarrow>
                 (let (err, w) = call_Ping c ctx w0
                  in (case err of
                        Some e \<Rightarrow> (health(''redis'' \<mapsto> ''unhealthy: '' @ e), w)
                      | None \<Rightarrow> (health(''redis'' \<mapsto> ''healthy''), w)))
             | None \<Rightarrow> (health(''redis'' \<mapsto> ''disabled''), w0));
          (err, w2) = call_HealthCheck (storage h) ctx w1
      in (case err of
            Some e \<Rightarrow>
              (writeJSON StatusServiceUnavailable
                 \<lparr>Success = False, Message = ''Service is unhealthy'',
                  Data = Some (health(''status'' \<mapsto> ''unhealthy'', ''r2'' \<mapsto> ''unhealthy: '' @ e))\<rparr>, w2)
          | None \<Rightarrow>
              (writeJSON StatusOK
                 \<lparr>Success = True, Message = ''Service is healthy'',
                  Data = Some (health(''r2'' \<mapsto> ''healthy''))\<rparr>, w2)))"

text \<open>
  \<open>GetFile\<close>, from "Fetch from storage" to its end (lines 129 to 181). The goroutine
  is started, not run: it is appended to the goroutines of the world.
\<close>

definition GetFile_storage ::
  "(string \<Rightarrow> string) \<Rightarrow> ('c, 's) FileHandler \<Rightarrow> Request \<Rightarrow> Context \<Rightarrow> string \<Rightarrow> ('c, 's) World
     \<Rightarrow> HTTPResponse \<times> ('c, 's) World" where
  "GetFile_storage TypeByExtension h r ctx filename w1 =
     (let ((data, err), w2) = call_GetObject (storage h) ctx filename w1
      in (case err of
            Some e \<Rightarrow>
              (let w3 = R2RequestsTotal_Inc ''get'' ''error'' w2;
                   w4 = slog_Error ''Storage error'' [(''filename'', filename), (''error'', e)] w3
               in if ctx_Err r = Some DeadlineExceeded then
                    (writeJSON StatusGatewayTimeout
                       \<lparr>Success = False, Message = ''Request timeout'', Data = None\<rparr>, w4)
                  else if isNotFoundError e then
                    (writeJSON StatusNotFound
                       \<lparr>Success = False, Message = ''File not found'', Data = None\<rparr>, w4)
                  else
                    (writeJSON StatusInternalServerError
                       \<lparr>Success = False, Message = ''Failed to retrieve file'', Data = None\<rparr>, w4))
          | None \<Rightarrow>
              (let w3 = R2RequestsTotal_Inc ''get'' ''success'' w2;
                   w4 = (case cache h of
                           Some c \<Rightarrow> w3\<lparr>goroutines := goroutines w3 @ [WriteBack filename data]\<rparr>
                         | None \<Rightarrow> w3)
               in (writeFileResponse TypeByExtension filename data, w4))))"

text \<open>\<open>GetFile\<close> (lines 92 to 181).\<close>

definition GetFile ::
  "(string \<Rightarrow> string) \<Rightarrow> ('c, 's) FileHandler \<Rightarrow> Request \<Rightarrow> ('c, 's) World
     \<Rightarrow> HTTPResponse \<times> ('c, 's) World" where
  "GetFile TypeByExtension h r w0 =
     (let filename = PathValue_name r
      in if filename = [] then
           (writeJSON StatusBadRequest
              \<lparr>Success = False, Message = ''filename is required'', Data = None\<rparr>, w0)
         else
           (let ctx = WithTimeout RequestContext (30 * Second)
            in (case cache h of
                  Some c \<Rightarrow>
                    (let ((data, found, err), w1) = call_Get c ctx filename w0;
                         w2 = (case err of
                                 Some e \<Rightarrow> slog_Error ''Cache error'' [(''filename'', filename), (''error'', e)] w1
                               | None \<Rightarrow> w1)
                     in if found then
                          (let w3 = CacheHitsTotal_Inc w2;
                               w4 = slog_Info ''Cache HIT'' [(''filename'', filename)] w3
                           in (writeFileResponse TypeByExtension filename data, w4))
                        else
                          (let w3 = CacheMissesTotal_Inc w2;
                               w4 = slog_Info ''Cache MISS'' [(''filename'', filename)] w3
                           in GetFile_storage TypeByExtension h r ctx filename w4))
                | None \<Rightarrow>
                    (let w1 = slog_Info ''Cache disabled, fetching from storage'' [(''filename'', filename)] w0
                     in GetFile_storage TypeByExtension h r ctx filename w1))))"

text \<open>
  The body of the goroutine (lines 166 to 177), run with its own context, and a run
  of every goroutine started so far, in the order they were started.
\<close>

definition run_Goroutine :: "('c, 's) FileHandler \<Rightarrow> Goroutine \<Rightarrow> ('c, 's) World \<Rightarrow> ('c, 's) World" where
  "run_Goroutine h g w =
     (case g of WriteBack filename data \<Rightarrow>
        (case cache h of
           Some c \<Rightarrow>
             (let bgCtx = WithTimeout Background (30 * Second);
                  (err, w1) = call_Set c bgCtx filename data w
              in (case err of
                    Some e \<Rightarrow> slog_Error ''Failed to cache file'' [(''filename'', filename), (''error'', e)] w1
                  | None \<Rightarrow> slog_Info ''Cached file'' [(''filename'', filename)] w1))
         | None \<Rightarrow> w))"

definition settle :: "('c, 's) FileHandler \<Rightarrow> ('c, 's) World \<Rightarrow> ('c, 's) World" where
  "settle h w = foldl (\<lambda>w' g. run_Goroutine h g w') (w\<lparr>goroutines := []\<rparr>) (goroutines w)"

section \<open>The backends of the repository\<close>

subsection \<open>\<open>MockCache\<close>\<close>

text \<open>
  The mock keeps the slices it is given; the handlers never write into a slice, so
  sharing one between the two mocks cannot be observed and a slice is its content.
  The mutex is held through each method, so a method is one step. The counters
  are Go \<open>int\<close>s counting calls from zero.
\<close>

record SetCall =
  SetCall_Key :: string
  SetCall_Data :: bytes

record MockCache =
  MockCache_data :: "string \<rightharpoonup> bytes"
  MockCache_GetError :: "error option"
  MockCache_SetError :: "error option"
  MockCache_PingError :: "error option"
  MockCache_CloseError :: "error option"
  MockCache_GetCalls :: "string list"
  MockCache_SetCalls :: "SetCall list"
  MockCache_PingCalls :: int
  MockCache_CloseCalls :: int

definition NewMockCache :: MockCache where
  "NewMockCache =
     \<lparr>MockCache_data = Map.empty,
      MockCache_GetError = None, MockCache_SetError = None,
      MockCache_PingError = None, MockCache_CloseError = None,
      MockCache_GetCalls = [], MockCache_SetCalls = [],
      MockCache_PingCalls = 0, MockCache_CloseCalls = 0\<rparr>"

definition MockCache_Get :: "Context \<Rightarrow> string \<Rightarrow> MockCache \<Rightarrow> (bytes \<times> bool \<times> error option) \<times> MockCache" where
  "MockCache_Get ctx key m =
     (let m1 = m\<lparr>MockCache_GetCalls := MockCache_GetCalls m @ [key]\<rparr>
      in (case MockCache_GetError m1 of
            Some e \<Rightarrow> (([], False, Some e), m1)
          | None \<Rightarrow>
              (case MockCache_data m1 key of
                 Some data \<Rightarrow> ((data, True, None), m1)
               | None \<Rightarrow> (([], False, None), m1))))"

definition MockCache_Set :: "Context \<Rightarrow> string \<Rightarrow> bytes \<Rightarrow> MockCache \<Rightarrow> error option \<times> MockCache" where
  "MockCache_Set ctx key data m =
     (let m1 = m\<lparr>MockCache_SetCalls :=
                   MockCache_SetCalls m @ [\<lparr>SetCall_Key = key, SetCall_Data = data\<rparr>]\<rparr>
      in (case MockCache_SetError m1 of
            Some e \<Rightarrow> (Some e, m1)
          | None \<Rightarrow> (None, m1\<lparr>MockCache_data := (MockCache_data m1)(key \<mapsto> data)\<rparr>)))"

definition MockCache_Ping :: "Context \<Rightarrow> MockCache \<Rightarrow> error option \<times> MockCache" where
  "MockCache_Ping ctx m =
     (let m1 = m\<lparr>MockCache_PingCalls := MockCache_PingCalls m + 1\<rparr>
      in (MockCache_PingError m1, m1))"

definition MockCache_Close :: "MockCache \<Rightarrow> error option \<times> MockCache" where
  "MockCache_Close m =
     (let m1 = m\<lparr>MockCache_CloseCalls := MockCache_CloseCalls m + 1\<rparr>
      in (MockCache_CloseError m1, m1))"

definition MockCache_SetData :: "string \<Rightarrow> bytes \<Rightarrow> MockCache \<Rightarrow> MockCache" where
  "MockCache_SetData key data m = m\<lparr>MockCache_data := (MockCache_data m)(key \<mapsto> data)\<rparr>"

definition ErrCacheUnavailable :: error where
  "ErrCacheUnavailable = ''cache unavailable''"

definition ErrCacheTimeout :: error where
  "ErrCacheTimeout = ''cache timeout''"

text \<open>The mock as a value of the interface \<open>cache.Cache\<close>.\<close>

definition MockCache_Cache :: "MockCache Cache" where
  "MockCache_Cache =
     \<lparr>Cache_Get = MockCache_Get, Cache_Set = MockCache_Set,
      Cache_Ping = MockCache_Ping, Cache_Close = MockCache_Close\<rparr>"

subsection \<open>\<open>MockStorage\<close>\<close>

record PutCall =
  PutCall_Key :: string
  PutCall_ContentType :: string
  PutCall_Data :: bytes

record MockStorage =
  MockStorage_objects :: "string \<rightharpoonup> bytes"
  MockStorage_GetError :: "error option"
  MockStorage_PutError :: "error option"
  MockStorage_DeleteError :: "error option"
  MockStorage_ExistsError :: "error option"
  MockStorage_HealthCheckError :: "error option"
  MockStorage_GetCalls :: "string list"
  MockStorage_PutCalls :: "PutCall list"
  MockStorage_DeleteCalls :: "string list"
  MockStorage_ExistsCalls :: "string list"
  MockStorage_HealthCheckCalls :: int

definition NewMockStorage :: MockStorage where
  "NewMockStorage =
     \<lparr>MockStorage_objects = Map.empty,
      MockStorage_GetError = None, MockStorage_PutError = None,
      MockStorage_DeleteError = None, MockStorage_ExistsError = None,
      MockStorage_HealthCheckError = None,
      MockStorage_GetCalls = [], MockStorage_PutCalls = [],
      MockStorage_DeleteCalls = [], MockStorage_ExistsCalls = [],
      MockStorage_HealthCheckCalls = 0\<rparr>"

definition ErrObjectNotFound :: error where
  "ErrObjectNotFound = ''NoSuchKey: The specified key does not exist''"

definition ErrStorageTimeout :: error where
  "ErrStorageTimeout = ''storage timeout''"

definition ErrStorageError :: error where
  "ErrStorageError = ''storage error''"

definition ErrBucketNotFound :: error where
  "ErrBucketNotFound = ''bucket not found''"

definition MockStorage_GetObject :: "Context \<Rightarrow> string \<Rightarrow> MockStorage \<Rightarrow> (bytes \<times> error option) \<times> MockStorage" where
  "MockStorage_GetObject ctx key m =
     (let m1 = m\<lparr>MockStorage_GetCalls := MockStorage_GetCalls m @ [key]\<rparr>
      in (case MockStorage_GetError m1 of
            Some e \<Rightarrow> (([], Some e), m1)
          | None \<Rightarrow>
              (case MockStorage_objects m1 key of
                 None \<Rightarrow> (([], Some ErrObjectNotFound), m1)
               | Some data \<Rightarrow> ((data, None), m1))))"

definition MockStorage_PutObject ::
  "Context \<Rightarrow> string \<Rightarrow> error + bytes \<Rightarrow> string \<Rightarrow> MockStorage \<Rightarrow> error option \<times> MockStorage" where
  "MockStorage_PutObject ctx key data contentType m =
     (case data of
        Inl err \<Rightarrow> (Some err, m)
      | Inr content \<Rightarrow>
          (let m1 = m\<lparr>MockStorage_PutCalls := MockStorage_PutCalls m @
                        [\<lparr>PutCall_Key = key, PutCall_ContentType = contentType, PutCall_Data = content\<rparr>]\<rparr>
           in (case MockStorage_PutError m1 of
                 Some e \<Rightarrow> (Some e, m1)
               | None \<Rightarrow> (None, m1\<lparr>MockStorage_objects := (MockStorage_objects m1)(key \<mapsto> content)\<rparr>))))"

definition MockStorage_DeleteObject :: "Context \<Rightarrow> string \<Rightarrow> MockStorage \<Rightarrow> error option \<times> MockStorage" where
  "MockStorage_DeleteObject ctx key m =
     (let m1 = m\<lparr>MockStorage_DeleteCalls := MockStorage_DeleteCalls m @ [key]\<rparr>
      in (case MockStorage_DeleteError m1 of
            Some e \<Rightarrow> (Some e, m1)
          | None \<Rightarrow> (None, m1\<lparr>MockStorage_objects := (MockStorage_objects m1)(key := None)\<rparr>)))"

definition MockStorage_ObjectExists :: "Context \<Rightarrow> string \<Rightarrow> MockStorage \<Rightarrow> (bool \<times> error option) \<times> MockStorage" where
  "MockStorage_ObjectExists ctx key m =
     (let m1 = m\<lparr>MockStorage_ExistsCalls := MockStorage_ExistsCalls m @ [key]\<rparr>
      in (case MockStorage_ExistsError m1 of
            Some e \<Rightarrow> ((False, Some e), m1)
          | None \<Rightarrow> ((MockStorage_objects m1 key \<noteq> None, None), m1)))"

definition MockStorage_HealthCheck :: "Context \<Rightarrow> MockStorage \<Rightarrow> error option \<times> MockStorage" where
  "MockStorage_HealthCheck ctx m =
     (let m1 = m\<lparr>MockStorage_HealthCheckCalls := MockStorage_HealthCheckCalls m + 1\<rparr>
      in (MockStorage_HealthCheckError m1, m1))"

definition MockStorage_SetObject :: "string \<Rightarrow> bytes \<Rightarrow> MockStorage \<Rightarrow> MockStorage" where
  "MockStorage_SetObject key data m = m\<lparr>MockStorage_objects := (MockStorage_objects m)(key \<mapsto> data)\<rparr>"

text \<open>The mock as a value of the interface \<open>storage.Storage\<close>.\<close>

definition MockStorage_Storage :: "MockStorage Storage" where
  "MockStorage_Storage =
     \<lparr>Storage_GetObject = MockStorage_GetObject, Storage_PutObject = MockStorage_PutObject,
      Storage_DeleteObject = MockStorage_DeleteObject, Storage_ObjectExists = MockStorage_ObjectExists,
      Storage_HealthCheck = MockStorage_HealthCheck\<rparr>"

subsection \<open>\<open>RedisCache.Get\<close>\<close>

text \<open>
  The Redis client is outside the repository; \<open>RedisCache.Get\<close> is a function of the
  reply \<open>c.client.Get(ctx, key).Bytes()\<close> gives: the sentinel \<open>redis.Nil\<close>, another
  error, or the bytes.
\<close>

datatype RedisReply = RedisNil | RedisErr error | RedisBytes bytes

definition RedisCache_Get :: "RedisReply \<Rightarrow> bytes \<times> bool \<times> error option" where
  "RedisCache_Get reply =
     (case reply of
        RedisNil \<Rightarrow> ([], False, None)
      | RedisErr e \<Rightarrow> ([], False, Some (''redis get error: '' @ e))
      | RedisBytes data \<Rightarrow> (data, True, None))"

text \<open>
  The world a test starts from: the two mocks as given, nothing logged, counted,
  started or called yet.
\<close>

definition NewWorld :: "'c \<Rightarrow> 's \<Rightarrow> ('c, 's) World" where
  "NewWorld c s =
     \<lparr>cacheState = c, storageState = s, portCalls = [], slog = [],
      metrics = \<lparr>CacheHitsTotal = 0, CacheMissesTotal = 0, R2RequestsTotal = (\<lambda>_. 0)\<rparr>,
      goroutines = []\<rparr>"

section \<open>The table of \<open>mime.TypeByExtension\<close>\<close>

text \<open>
  The Go standard library's \<open>mime\<close> package (the image is built with Go 1.23). Its
  table starts from the built-in entries below; initialisation then registers what
  the host's MIME files list, each entry through \<open>setExtensionType\<close>, which gives a
  \<open>text/\<close> type without a charset the parameter \<open>charset=utf-8\<close>. A host is the list
  of the registrations made (extension, media type), the most recent first; its
  media types are those of \<open>mime.types\<close> lines: lower case, without parameters. An
  image without such files, like the \<open>alpine:3.19\<close> image of the Dockerfile, is the
  empty list.
\<close>

definition mime_builtinTypesLower :: "(string \<times> string) list" where
  "mime_builtinTypesLower =
     [(''.avif'', ''image/avif''),
      (''.css'', ''text/css; charset=utf-8''),
      (''.gif'', ''image/gif''),
      (''.htm'', ''text/html; charset=utf-8''),
      (''.html'', ''text/html; charset=utf-8''),
      (''.jpeg'', ''image/jpeg''),
      (''.jpg'', ''image/jpeg''),
      (''.js'', ''text/javascript; charset=utf-8''),
      (''.json'', ''application/json''),
      (''.mjs'', ''text/javascript; charset=utf-8''),
      (''.pdf'', ''application/pdf''),
      (''.png'', ''image/png''),
      (''.svg'', ''image/svg+xml''),
      (''.wasm'', ''application/wasm''),
      (''.webp'', ''image/webp''),
      (''.xml'', ''text/xml; charset=utf-8'')]"

text \<open>The type \<open>setExtensionType\<close> stores for a media type without parameters.\<close>

definition mime_setExtensionType :: "string \<Rightarrow> string" where
  "mime_setExtensionType mimeType =
     (if prefix ''text/'' mimeType then mimeType @ ''; charset=utf-8'' else mimeType)"

text \<open>Lower case of an ASCII letter; every other byte is kept.\<close>

definition toLower :: "char \<Rightarrow> char" where
  "toLower c =
     (case map_of (zip ''ABCDEFGHIJKLMNOPQRSTUVWXYZ'' ''abcdefghijklmnopqrstuvwxyz'') c of
        Some l \<Rightarrow> l
      | None \<Rightarrow> c)"

text \<open>
  \<open>mimeTypes\<close> is keyed by the extensions as registered, \<open>mimeTypesLower\<close> by their
  lower case; \<open>TypeByExtension\<close> looks the extension up in the first and then its
  lower case in the second, and returns the empty string when both miss.
\<close>

definition mime_mimeTypes :: "(string \<times> string) list \<Rightarrow> (string \<times> string) list" where
  "mime_mimeTypes host =
     map (\<lambda>(extension, mimeType). (extension, mime_setExtensionType mimeType)) host
       @ mime_builtinTypesLower"

definition mime_mimeTypesLower :: "(string \<times> string) list \<Rightarrow> (string \<times> string) list" where
  "mime_mimeTypesLower host =
     map (\<lambda>(extension, mimeType). (map toLower extension, mime_setExtensionType mimeType)) host
       @ mime_builtinTypesLower"

definition mime_TypeByExtension :: "(string \<times> string) list \<Rightarrow> string \<Rightarrow> string" where
  "mime_TypeByExtension host ext =
     (case map_of (mime_mimeTypes host) ext of
        Some v \<Rightarrow> v
      | None \<Rightarrow>
          (case map_of (mime_mimeTypesLower host) (map toLower ext) of
             Some v \<Rightarrow> v
           | None \<Rightarrow> []))"

section \<open>Facts about the parts\<close>

lemmas world_defs = call_Get_def call_Set_def call_Ping_def call_GetObject_def call_HealthCheck_def
  slog_Info_def slog_Error_def CacheHitsTotal_Inc_def CacheMissesTotal_Inc_def R2RequestsTotal_Inc_def

lemmas mock_defs = MockCache_Cache_def MockCache_Get_def MockCache_Set_def MockCache_Ping_def
  MockCache_SetData_def NewMockCache_def
  MockStorage_Storage_def MockStorage_GetObject_def MockStorage_HealthCheck_def
  MockStorage_SetObject_def NewMockStorage_def NewWorld_def NewFileHandler_def

text \<open>\<open>Contains\<close> is the contiguous-sublist relation of the library.\<close>

lemma Contains_iff_sublist: "Contains s substr \<longleftrightarrow> sublist substr s"
  by (induction s) (auto simp: sublist_Cons_right)

lemma isNotFoundError_ErrObjectNotFound: "isNotFoundError ErrObjectNotFound"
  by (simp add: isNotFoundError_def ErrObjectNotFound_def)

lemma isNotFoundError_ErrStorageError: "\<not> isNotFoundError ErrStorageError"
  by (simp add: isNotFoundError_def ErrStorageError_def)

text \<open>A path without a dot has no extension.\<close>

lemma Ext_loop_no_dot: "CHR ''.'' \<notin> set path \<Longrightarrow> n \<le> length path \<Longrightarrow> Ext_loop path n = []"
proof (induction n)
  case 0
  then show ?case by simp
next
  case (Suc n)
  then have "path ! n \<in> set path" by (simp add: Suc_le_eq)
  with Suc.prems(1) have "path ! n \<noteq> CHR ''.''" by metis
  with Suc show ?case by simp
qed

lemma Ext_no_dot: "CHR ''.'' \<notin> set path \<Longrightarrow> Ext path = []"
  by (simp add: Ext_def Ext_loop_no_dot)

lemma Ext_a_txt: "Ext ''a.txt'' = ''.txt''"
  by (simp add: Ext_def numeral_eq_Suc)

text \<open>
  The loop of \<open>Ext\<close> walks over a stretch without dot and slash; so the extension
  starts at the last dot of the last path element, and a last element without a
  dot has none.
\<close>

lemma Ext_loop_skip:
  "CHR ''.'' \<notin> set e \<Longrightarrow> CHR ''/'' \<notin> set e \<Longrightarrow>
     Ext_loop (q @ e @ r) (length q + length e) = Ext_loop (q @ e @ r) (length q)"
proof (induction e arbitrary: r rule: rev_induct)
  case Nil
  then show ?case by simp
next
  case (snoc x e)
  have x: "x \<noteq> CHR ''/''" "x \<noteq> CHR ''.''" using snoc.prems by auto
  have at: "(q @ (e @ [x]) @ r) ! (length q + length e) = x"
    by (simp add: nth_append)
  have "Ext_loop (q @ (e @ [x]) @ r) (length q + length (e @ [x])) =
          Ext_loop (q @ (e @ [x]) @ r) (Suc (length q + length e))"
    by simp
  also have "\<dots> = Ext_loop (q @ (e @ [x]) @ r) (length q + length e)"
    using x at by simp
  also have "\<dots> = Ext_loop (q @ e @ (x # r)) (length q + length e)"
    by simp
  also have "\<dots> = Ext_loop (q @ e @ (x # r)) (length q)"
    using snoc.prems by (intro snoc.IH) auto
  finally show ?case by simp
qed

lemma Ext_last_dot:
  assumes "CHR ''.'' \<notin> set e" and "CHR ''/'' \<notin> set e"
  shows "Ext (p @ CHR ''.'' # e) = CHR ''.'' # e"
proof -
  have "Ext (p @ CHR ''.'' # e) = Ext_loop ((p @ [CHR ''.'']) @ e @ []) (length (p @ [CHR ''.'']) + length e)"
    by (simp add: Ext_def)
  also have "\<dots> = Ext_loop ((p @ [CHR ''.'']) @ e @ []) (length (p @ [CHR ''.'']))"
    using assms by (rule Ext_loop_skip)
  also have "\<dots> = CHR ''.'' # e"
    by (simp add: nth_append)
  finally show ?thesis .
qed

lemma Ext_no_dot_in_last_element:
  assumes "CHR ''.'' \<notin> set b" and "CHR ''/'' \<notin> set b"
  shows "Ext (d @ CHR ''/'' # b) = []"
proof -
  have "Ext (d @ CHR ''/'' # b) = Ext_loop ((d @ [CHR ''/'']) @ b @ []) (length (d @ [CHR ''/'']) + length b)"
    by (simp add: Ext_def)
  also have "\<dots> = Ext_loop ((d @ [CHR ''/'']) @ b @ []) (length (d @ [CHR ''/'']))"
    using assms by (rule Ext_loop_skip)
  also have "\<dots> = []"
    by (simp add: nth_append)
  finally show ?thesis .
qed

text \<open>
  What \<open>mime.TypeByExtension\<close> gives for \<open>.txt\<close>: nothing built in; with a host
  entry \<open>text/plain\<close> the type with its charset; on no host the bare \<open>text/plain\<close>.
\<close>

lemma mime_setExtensionType_not_text_plain: "mime_setExtensionType t \<noteq> ''text/plain''"
proof
  assume eq: "mime_setExtensionType t = ''text/plain''"
  show False
  proof (cases "prefix ''text/'' t")
    case True
    then have "length t \<ge> 5" by (auto simp add: prefix_def)
    moreover from True eq have "length (t @ ''; charset=utf-8'') = length ''text/plain''"
      by (simp add: mime_setExtensionType_def)
    ultimately show False by simp
  next
    case False
    with eq have "t = ''text/plain''" by (simp add: mime_setExtensionType_def)
    with False show False by simp
  qed
qed

lemma map_of_registered:
  "map_of (map (\<lambda>(extension, mimeType). (f extension, mime_setExtensionType mimeType)) host) k = Some v
     \<Longrightarrow> \<exists>t. v = mime_setExtensionType t"
  by (induction host) (auto split: if_splits)

lemma builtin_txt: "map_of mime_builtinTypesLower ''.txt'' = None"
  by (simp add: mime_builtinTypesLower_def)

lemma toLower_txt: "map toLower ''.txt'' = ''.txt''"
  by (simp add: toLower_def)

lemma mime_TypeByExtension_txt_not_bare: "mime_TypeByExtension host ''.txt'' \<noteq> ''text/plain''"
proof -
  have a: "map_of (mime_mimeTypes host) ''.txt'' = Some v \<Longrightarrow> v \<noteq> ''text/plain''" for v
    using map_of_registered [of "\<lambda>e. e" host "''.txt''" v] mime_setExtensionType_not_text_plain
    by (auto simp add: mime_mimeTypes_def map_add_Some_iff builtin_txt)
  have b: "map_of (mime_mimeTypesLower host) ''.txt'' = Some v \<Longrightarrow> v \<noteq> ''text/plain''" for v
    using map_of_registered [of "map toLower" host "''.txt''" v] mime_setExtensionType_not_text_plain
    by (auto simp add: mime_mimeTypesLower_def map_add_Some_iff builtin_txt)
  show ?thesis
    using a b unfolding mime_TypeByExtension_def toLower_txt by (auto split: option.split)
qed

lemma mime_TypeByExtension_txt_host:
  assumes "map_of host ''.txt'' = Some ''text/plain''"
  shows "mime_TypeByExtension host ''.txt'' = ''text/plain; charset=utf-8''"
proof -
  have "map_of (map (\<lambda>(extension, mimeType). (extension, mime_setExtensionType mimeType)) host) ''.txt''
          = Some (mime_setExtensionType ''text/plain'')"
    using assms by (induction host) (auto split: if_splits)
  then show ?thesis
    by (simp add: mime_TypeByExtension_def mime_mimeTypes_def mime_setExtensionType_def)
qed

lemma mime_TypeByExtension_txt_no_host: "mime_TypeByExtension [] ''.txt'' = []"
  unfolding mime_TypeByExtension_def toLower_txt
  by (simp add: mime_mimeTypes_def mime_mimeTypesLower_def builtin_txt)

lemma mime_TypeByExtension_pdf: "mime_TypeByExtension [] ''.pdf'' = ''application/pdf''"
  by (simp add: mime_TypeByExtension_def mime_mimeTypes_def mime_builtinTypesLower_def)

lemma mime_TypeByExtension_empty: "mime_TypeByExtension [] [] = []"
  by (simp add: mime_TypeByExtension_def mime_mimeTypes_def mime_mimeTypesLower_def mime_builtinTypesLower_def)

lemma writeJSON_StatusCode [simp]: "StatusCode (writeJSON status data) = status"
  by (simp add: writeJSON_def)

lemma writeFileResponse_StatusCode [simp]: "StatusCode (writeFileResponse T filename data) = StatusOK"
  by (simp add: writeFileResponse_def Let_def)

lemma writeFileResponse_Body [simp]: "Body (writeFileResponse T filename data) = Raw data"
  by (simp add: writeFileResponse_def Let_def)

text \<open>
  Both caches of the repository report an error only together with \<open>found = false\<close>.
\<close>

lemma MockCache_Get_error_not_found:
  "fst (MockCache_Get ctx key m) = (data, found, Some e) \<Longrightarrow> \<not> found"
  by (auto simp add: MockCache_Get_def Let_def split: option.splits)

lemma RedisCache_Get_error_not_found:
  "RedisCache_Get reply = (data, found, Some e) \<Longrightarrow> \<not> found"
  by (auto simp add: RedisCache_Get_def split: RedisReply.splits)

text \<open>The storage part of \<open>GetFile\<close>: its response and what it changes.\<close>

lemma GetFile_storage_response:
  "fst (GetFile_storage T h r ctx filename w) =
     (case fst (Storage_GetObject (storage h) ctx filename (storageState w)) of
        (data, None) \<Rightarrow> writeFileResponse T filename data
      | (data, Some e) \<Rightarrow>
          if ctx_Err r = Some DeadlineExceeded then
            writeJSON StatusGatewayTimeout \<lparr>Success = False, Message = ''Request timeout'', Data = None\<rparr>
          else if isNotFoundError e then
            writeJSON StatusNotFound \<lparr>Success = False, Message = ''File not found'', Data = None\<rparr>
          else
            writeJSON StatusInternalServerError \<lparr>Success = False, Message = ''Failed to retrieve file'', Data = None\<rparr>)"
  by (simp add: GetFile_storage_def call_GetObject_def Let_def split_def split: option.split)

lemma GetFile_storage_portCalls:
  "portCalls (snd (GetFile_storage T h r ctx filename w)) = portCalls w @ [StorageGetObject filename]"
  by (simp add: GetFile_storage_def world_defs Let_def split_def split: option.split)

lemma GetFile_storage_cacheState:
  "cacheState (snd (GetFile_storage T h r ctx filename w)) = cacheState w"
  by (simp add: GetFile_storage_def world_defs Let_def split_def split: option.split)

lemma GetFile_storage_storageState:
  "storageState (snd (GetFile_storage T h r ctx filename w)) =
     snd (Storage_GetObject (storage h) ctx filename (storageState w))"
  by (simp add: GetFile_storage_def world_defs Let_def split_def split: option.split)

lemma GetFile_storage_goroutines:
  "goroutines (snd (GetFile_storage T h r ctx filename w)) =
     (case (snd (fst (Storage_GetObject (storage h) ctx filename (storageState w))), cache h) of
        (None, Some c) \<Rightarrow>
          goroutines w @ [WriteBack filename (fst (fst (Storage_GetObject (storage h) ctx filename (storageState w))))]
      | _ \<Rightarrow> goroutines w)"
  by (simp add: GetFile_storage_def world_defs Let_def split_def split: option.split)

lemma GetFile_storage_slog_mono:
  "set (slog w) \<subseteq> set (slog (snd (GetFile_storage T h r ctx filename w)))"
  by (auto simp add: GetFile_storage_def world_defs Let_def split_def split: option.split)

text \<open>\<open>GetFile\<close> on a hit.\<close>

lemma GetFile_hit:
  assumes "PathValue_name r \<noteq> []" and "cache h = Some c"
    and "fst (Cache_Get c (WithTimeout RequestContext (30 * Second)) (PathValue_name r) (cacheState w))
           = (data, True, err)"
  shows "fst (GetFile T h r w) = writeFileResponse T (PathValue_name r) data"
    and "portCalls (snd (GetFile T h r w)) = portCalls w @ [CacheGet (PathValue_name r)]"
    and "storageState (snd (GetFile T h r w)) = storageState w"
    and "goroutines (snd (GetFile T h r w)) = goroutines w"
    and "cacheState (snd (GetFile T h r w)) =
           snd (Cache_Get c (WithTimeout RequestContext (30 * Second)) (PathValue_name r) (cacheState w))"
  using assms
  by (simp_all add: GetFile_def world_defs Let_def split_def split: option.split)

text \<open>\<open>GetFile\<close> on a miss: the cache block, then the storage part.\<close>

lemma GetFile_miss:
  assumes "PathValue_name r \<noteq> []" and "cache h = Some c"
    and "fst (Cache_Get c (WithTimeout RequestContext (30 * Second)) (PathValue_name r) (cacheState w))
           = (data, False, err)"
  shows "GetFile T h r w =
           GetFile_storage T h r (WithTimeout RequestContext (30 * Second)) (PathValue_name r)
             (slog_Info ''Cache MISS'' [(''filename'', PathValue_name r)]
                (CacheMissesTotal_Inc
                   ((case err of
                       Some e \<Rightarrow> slog_Error ''Cache error'' [(''filename'', PathValue_name r), (''error'', e)]
                     | None \<Rightarrow> (\<lambda>w. w))
                      (snd (call_Get c (WithTimeout RequestContext (30 * Second)) (PathValue_name r) w)))))"
  using assms by (simp add: GetFile_def call_Get_def Let_def split_def split: option.split)

lemma GetFile_disabled:
  assumes "PathValue_name r \<noteq> []" and "cache h = None"
  shows "GetFile T h r w =
           GetFile_storage T h r (WithTimeout RequestContext (30 * Second)) (PathValue_name r)
             (slog_Info ''Cache disabled, fetching from storage'' [(''filename'', PathValue_name r)] w)"
  using assms by (simp add: GetFile_def Let_def)

text \<open>Whenever the cache block does not answer, the storage part decides on the storage state as it was.\<close>

lemma GetFile_reaches_storage:
  assumes "PathValue_name r \<noteq> []"
    and "\<forall>c. cache h = Some c \<longrightarrow>
           \<not> fst (snd (fst (Cache_Get c (WithTimeout RequestContext (30 * Second))
                               (PathValue_name r) (cacheState w))))"
  shows "fst (GetFile T h r w) =
           fst (GetFile_storage T h r (WithTimeout RequestContext (30 * Second)) (PathValue_name r) w)"
    and "goroutines (snd (GetFile T h r w)) =
           goroutines (snd (GetFile_storage T h r (WithTimeout RequestContext (30 * Second)) (PathValue_name r) w))"
  using assms
  by (auto simp add: GetFile_def GetFile_storage_response GetFile_storage_goroutines world_defs
        Let_def split_def split: option.splits)

lemma GetFile_OK_is_writeFileResponse:
  "StatusCode (fst (GetFile T h r w)) = StatusOK \<Longrightarrow>
     \<exists>data. fst (GetFile T h r w) = writeFileResponse T (PathValue_name r) data"
  by (auto simp add: GetFile_def GetFile_storage_response writeJSON_StatusCode Let_def split_def
      split: option.splits if_splits prod.splits)

text \<open>\<open>Health\<close>: its response and the calls it makes.\<close>

lemma Health_response:
  "fst (Health h w) =
     (let redis = (case cache h of
                     None \<Rightarrow> ''disabled''
                   | Some c \<Rightarrow>
                       (case fst (Cache_Ping c (WithTimeout RequestContext (5 * Second)) (cacheState w)) of
                          None \<Rightarrow> ''healthy''
                        | Some pe \<Rightarrow> ''unhealthy: '' @ pe))
      in case fst (Storage_HealthCheck (storage h) (WithTimeout RequestContext (5 * Second)) (storageState w)) of
           Some e \<Rightarrow>
             writeJSON StatusServiceUnavailable
               \<lparr>Success = False, Message = ''Service is unhealthy'',
                Data = Some [''status'' \<mapsto> ''unhealthy'', ''redis'' \<mapsto> redis, ''r2'' \<mapsto> ''unhealthy: '' @ e]\<rparr>
         | None \<Rightarrow>
             writeJSON StatusOK
               \<lparr>Success = True, Message = ''Service is healthy'',
                Data = Some [''status'' \<mapsto> ''healthy'', ''redis'' \<mapsto> redis, ''r2'' \<mapsto> ''healthy'']\<rparr>)"
  by (auto simp add: Health_def call_Ping_def call_HealthCheck_def Let_def split_def writeJSON_def fun_eq_iff
      split: option.split)

lemma Health_portCalls:
  "portCalls (snd (Health h w)) =
     portCalls w @ (case cache h of None \<Rightarrow> [] | Some c \<Rightarrow> [CachePing]) @ [StorageHealthCheck]"
  by (simp add: Health_def call_Ping_def call_HealthCheck_def Let_def split_def split: option.split)

lemma Health_cacheState_disabled:
  "cache h = None \<Longrightarrow> cacheState (snd (Health h w)) = cacheState w"
  by (simp add: Health_def call_HealthCheck_def Let_def split_def split: option.split)

section \<open>The claims\<close>

text \<open>
  C1. When the configured cache's lookup of the requested name returns
  \<open>found = true\<close>, \<open>GetFile\<close> answers 200 with the cached bytes, and the only port
  call of the request is that lookup: \<open>GetObject\<close> is not invoked and the storage
  backend's state is what it was. This holds whatever error value comes with the hit.
\<close>

theorem GetFile_cache_hit_skips_storage:
  assumes "PathValue_name r \<noteq> []" and "cache h = Some c"
    and "fst (Cache_Get c (WithTimeout RequestContext (30 * Second)) (PathValue_name r) (cacheState w))
           = (data, True, err)"
  shows "fst (GetFile T h r w) = writeFileResponse T (PathValue_name r) data
       \<and> StatusCode (fst (GetFile T h r w)) = StatusOK
       \<and> Body (fst (GetFile T h r w)) = Raw data
       \<and> portCalls (snd (GetFile T h r w)) = portCalls w @ [CacheGet (PathValue_name r)]
       \<and> storageState (snd (GetFile T h r w)) = storageState w
       \<and> goroutines (snd (GetFile T h r w)) = goroutines w"
  using GetFile_hit [OF assms, of T]
  by (simp add: writeFileResponse_StatusCode writeFileResponse_Body)

theorem GetFile_cache_hit_skips_storage_witness:
  "PathValue_name \<lparr>PathValue_name = ''a.txt'', ctx_Err = None\<rparr> \<noteq> []
   \<and> cache (NewFileHandler (Some MockCache_Cache) MockStorage_Storage) = Some MockCache_Cache
   \<and> fst (Cache_Get MockCache_Cache (WithTimeout RequestContext (30 * Second)) ''a.txt''
             (cacheState (NewWorld (MockCache_SetData ''a.txt'' ''cached'' NewMockCache)
                                   (MockStorage_SetObject ''a.txt'' ''stored'' NewMockStorage))))
       = (''cached'', True, None)
   \<and> Body (fst (GetFile (mime_TypeByExtension []) (NewFileHandler (Some MockCache_Cache) MockStorage_Storage)
                  \<lparr>PathValue_name = ''a.txt'', ctx_Err = None\<rparr>
                  (NewWorld (MockCache_SetData ''a.txt'' ''cached'' NewMockCache)
                            (MockStorage_SetObject ''a.txt'' ''stored'' NewMockStorage)))) = Raw ''cached''
   \<and> MockStorage_GetCalls (storageState (snd
          (GetFile (mime_TypeByExtension []) (NewFileHandler (Some MockCache_Cache) MockStorage_Storage)
                  \<lparr>PathValue_name = ''a.txt'', ctx_Err = None\<rparr>
                  (NewWorld (MockCache_SetData ''a.txt'' ''cached'' NewMockCache)
                            (MockStorage_SetObject ''a.txt'' ''stored'' NewMockStorage))))) = []"
proof -
  let ?r = "\<lparr>PathValue_name = ''a.txt'', ctx_Err = None\<rparr>"
  let ?h = "NewFileHandler (Some MockCache_Cache) MockStorage_Storage"
  let ?w = "NewWorld (MockCache_SetData ''a.txt'' ''cached'' NewMockCache)
                     (MockStorage_SetObject ''a.txt'' ''stored'' NewMockStorage)"
  have a1: "PathValue_name ?r \<noteq> []" by simp
  have a2: "cache ?h = Some MockCache_Cache" by (simp add: NewFileHandler_def)
  have a3: "fst (Cache_Get MockCache_Cache (WithTimeout RequestContext (30 * Second)) (PathValue_name ?r)
                   (cacheState ?w)) = (''cached'', True, None)"
    by (simp add: mock_defs)
  have st: "MockStorage_GetCalls (storageState ?w) = []" by (simp add: mock_defs)
  from GetFile_cache_hit_skips_storage [OF a1 a2 a3, of "mime_TypeByExtension []"] a1 a2 a3 st
  show ?thesis by (simp add: writeFileResponse_Body)
qed


text \<open>
  C2. When the configured cache's \<open>Get\<close> returns a non-nil error (with
  \<open>found = false\<close>, as every cache of the repository does on an error), \<open>GetFile\<close>
  logs the error, then calls \<open>GetObject\<close> and answers with what storage gave:
  the file on success, 504, 404 or 500 on a storage error. The response carries
  nothing of the cache error: it is the response of the same handler without a cache.
\<close>

theorem GetFile_cache_error_falls_back:
  assumes "PathValue_name r \<noteq> []" and "cache h = Some c"
    and "fst (Cache_Get c (WithTimeout RequestContext (30 * Second)) (PathValue_name r) (cacheState w))
           = (data, False, Some e)"
    and "fst (Storage_GetObject (storage h) (WithTimeout RequestContext (30 * Second)) (PathValue_name r)
                (storageState w)) = (sdata, serr)"
  shows "(ERROR, ''Cache error'', [(''filename'', PathValue_name r), (''error'', e)])
            \<in> set (slog (snd (GetFile T h r w)))
       \<and> portCalls (snd (GetFile T h r w)) =
           portCalls w @ [CacheGet (PathValue_name r), StorageGetObject (PathValue_name r)]
       \<and> fst (GetFile T h r w) =
           (case serr of
              None \<Rightarrow> writeFileResponse T (PathValue_name r) sdata
            | Some se \<Rightarrow>
                if ctx_Err r = Some DeadlineExceeded then
                  writeJSON StatusGatewayTimeout \<lparr>Success = False, Message = ''Request timeout'', Data = None\<rparr>
                else if isNotFoundError se then
                  writeJSON StatusNotFound \<lparr>Success = False, Message = ''File not found'', Data = None\<rparr>
                else
                  writeJSON StatusInternalServerError
                    \<lparr>Success = False, Message = ''Failed to retrieve file'', Data = None\<rparr>)
       \<and> fst (GetFile T h r w) = fst (GetFile T (h\<lparr>cache := None\<rparr>) r w)"
proof -
  let ?ctx = "WithTimeout RequestContext (30 * Second)"
  let ?n = "PathValue_name r"
  let ?w4 = "slog_Info ''Cache MISS'' [(''filename'', ?n)]
               (CacheMissesTotal_Inc (slog_Error ''Cache error'' [(''filename'', ?n), (''error'', e)]
                  (snd (call_Get c ?ctx ?n w))))"
  let ?w1 = "slog_Info ''Cache disabled, fetching from storage'' [(''filename'', ?n)] w"
  have run: "GetFile T h r w = GetFile_storage T h r ?ctx ?n ?w4"
    using GetFile_miss [OF assms(1-3)] by simp
  have run': "GetFile T (h\<lparr>cache := None\<rparr>) r w = GetFile_storage T (h\<lparr>cache := None\<rparr>) r ?ctx ?n ?w1"
    using assms(1) by (simp add: GetFile_disabled)
  have st: "storageState ?w4 = storageState w" "storageState ?w1 = storageState w"
    by (simp_all add: world_defs split_def Let_def)
  have lg: "(ERROR, ''Cache error'', [(''filename'', ?n), (''error'', e)]) \<in> set (slog ?w4)"
    by (simp add: world_defs split_def Let_def)
  have pc: "portCalls ?w4 = portCalls w @ [CacheGet ?n]"
    by (simp add: world_defs split_def Let_def)
  have logged: "(ERROR, ''Cache error'', [(''filename'', ?n), (''error'', e)])
                  \<in> set (slog (snd (GetFile T h r w)))"
    unfolding run using lg GetFile_storage_slog_mono by blast
  have calls: "portCalls (snd (GetFile T h r w)) = portCalls w @ [CacheGet ?n, StorageGetObject ?n]"
    unfolding run by (simp add: GetFile_storage_portCalls pc)
  have resp: "fst (GetFile T h r w) =
           (case serr of
              None \<Rightarrow> writeFileResponse T ?n sdata
            | Some se \<Rightarrow>
                if ctx_Err r = Some DeadlineExceeded then
                  writeJSON StatusGatewayTimeout \<lparr>Success = False, Message = ''Request timeout'', Data = None\<rparr>
                else if isNotFoundError se then
                  writeJSON StatusNotFound \<lparr>Success = False, Message = ''File not found'', Data = None\<rparr>
                else
                  writeJSON StatusInternalServerError
                    \<lparr>Success = False, Message = ''Failed to retrieve file'', Data = None\<rparr>)"
    unfolding run using assms(4) by (simp add: GetFile_storage_response st split: option.split)
  have same: "fst (GetFile T h r w) = fst (GetFile T (h\<lparr>cache := None\<rparr>) r w)"
    unfolding run run' by (simp add: GetFile_storage_response st)
  from logged calls resp same show ?thesis by blast
qed

theorem GetFile_cache_error_falls_back_witness:
  "PathValue_name \<lparr>PathValue_name = ''a.txt'', ctx_Err = None\<rparr> \<noteq> []
   \<and> cache (NewFileHandler (Some MockCache_Cache) MockStorage_Storage) = Some MockCache_Cache
   \<and> fst (Cache_Get MockCache_Cache (WithTimeout RequestContext (30 * Second)) ''a.txt''
             (cacheState (NewWorld (NewMockCache\<lparr>MockCache_GetError := Some ErrCacheUnavailable\<rparr>)
                                   (MockStorage_SetObject ''a.txt'' ''hello'' NewMockStorage))))
       = ([], False, Some ErrCacheUnavailable)
   \<and> fst (Storage_GetObject MockStorage_Storage (WithTimeout RequestContext (30 * Second)) ''a.txt''
             (storageState (NewWorld (NewMockCache\<lparr>MockCache_GetError := Some ErrCacheUnavailable\<rparr>)
                                     (MockStorage_SetObject ''a.txt'' ''hello'' NewMockStorage))))
       = (''hello'', None)
   \<and> fst (GetFile (mime_TypeByExtension []) (NewFileHandler (Some MockCache_Cache) MockStorage_Storage)
             \<lparr>PathValue_name = ''a.txt'', ctx_Err = None\<rparr>
             (NewWorld (NewMockCache\<lparr>MockCache_GetError := Some ErrCacheUnavailable\<rparr>)
                       (MockStorage_SetObject ''a.txt'' ''hello'' NewMockStorage)))
       = writeFileResponse (mime_TypeByExtension []) ''a.txt'' ''hello''
   \<and> portCalls (snd (GetFile (mime_TypeByExtension []) (NewFileHandler (Some MockCache_Cache) MockStorage_Storage)
             \<lparr>PathValue_name = ''a.txt'', ctx_Err = None\<rparr>
             (NewWorld (NewMockCache\<lparr>MockCache_GetError := Some ErrCacheUnavailable\<rparr>)
                       (MockStorage_SetObject ''a.txt'' ''hello'' NewMockStorage))))
       = [CacheGet ''a.txt'', StorageGetObject ''a.txt'']"
proof -
  let ?r = "\<lparr>PathValue_name = ''a.txt'', ctx_Err = None\<rparr>"
  let ?h = "NewFileHandler (Some MockCache_Cache) MockStorage_Storage"
  let ?w = "NewWorld (NewMockCache\<lparr>MockCache_GetError := Some ErrCacheUnavailable\<rparr>)
                     (MockStorage_SetObject ''a.txt'' ''hello'' NewMockStorage)"
  have a1: "PathValue_name ?r \<noteq> []" by simp
  have a2: "cache ?h = Some MockCache_Cache" by (simp add: NewFileHandler_def)
  have a3: "fst (Cache_Get MockCache_Cache (WithTimeout RequestContext (30 * Second)) (PathValue_name ?r)
                   (cacheState ?w)) = ([], False, Some ErrCacheUnavailable)"
    by (simp add: mock_defs)
  have a4: "fst (Storage_GetObject (storage ?h) (WithTimeout RequestContext (30 * Second)) (PathValue_name ?r)
                   (storageState ?w)) = (''hello'', None)"
    by (simp add: mock_defs)
  have pc: "portCalls ?w = []" by (simp add: NewWorld_def)
  have sh: "storage ?h = MockStorage_Storage" by (simp add: NewFileHandler_def)
  from GetFile_cache_error_falls_back [OF a1 a2 a3 a4, of "mime_TypeByExtension []"] a1 a2 a3 a4 pc sh
  show ?thesis by simp
qed

text \<open>
  C3. When \<open>GetFile\<close> reaches storage (the cache is absent or its lookup did not
  find the name) and \<open>GetObject\<close> returns an error, the response is decided in this
  order: 504 "Request timeout" if \<open>ctx.Err()\<close> is \<open>DeadlineExceeded\<close>; otherwise 404
  "File not found" if \<open>isNotFoundError\<close> holds of the error; otherwise 500 "Failed
  to retrieve file".
\<close>

theorem GetFile_storage_error_classification:
  assumes "PathValue_name r \<noteq> []"
    and "\<forall>c. cache h = Some c \<longrightarrow>
           \<not> fst (snd (fst (Cache_Get c (WithTimeout RequestContext (30 * Second))
                               (PathValue_name r) (cacheState w))))"
    and "fst (Storage_GetObject (storage h) (WithTimeout RequestContext (30 * Second)) (PathValue_name r)
                (storageState w)) = (sdata, Some e)"
  shows "fst (GetFile T h r w) =
           (if ctx_Err r = Some DeadlineExceeded then
              writeJSON StatusGatewayTimeout \<lparr>Success = False, Message = ''Request timeout'', Data = None\<rparr>
            else if isNotFoundError e then
              writeJSON StatusNotFound \<lparr>Success = False, Message = ''File not found'', Data = None\<rparr>
            else
              writeJSON StatusInternalServerError
                \<lparr>Success = False, Message = ''Failed to retrieve file'', Data = None\<rparr>)"
  using assms
  by (auto simp add: GetFile_def GetFile_storage_response world_defs Let_def split_def split: option.splits)

theorem GetFile_storage_error_classification_witness:
  "PathValue_name \<lparr>PathValue_name = ''a.txt'', ctx_Err = None\<rparr> \<noteq> []
   \<and> PathValue_name \<lparr>PathValue_name = ''a.txt'', ctx_Err = Some DeadlineExceeded\<rparr> \<noteq> []
   \<and> cache (NewFileHandler (Some MockCache_Cache) MockStorage_Storage) = Some MockCache_Cache
   \<and> \<not> fst (snd (fst (Cache_Get MockCache_Cache (WithTimeout RequestContext (30 * Second)) ''a.txt''
                (cacheState (NewWorld NewMockCache
                   (NewMockStorage\<lparr>MockStorage_GetError := Some ErrStorageError\<rparr>))))))
   \<and> fst (Storage_GetObject MockStorage_Storage (WithTimeout RequestContext (30 * Second)) ''a.txt''
             (storageState (NewWorld NewMockCache
                (NewMockStorage\<lparr>MockStorage_GetError := Some ErrStorageError\<rparr>))))
       = ([], Some ErrStorageError)
   \<and> fst (GetFile (mime_TypeByExtension []) (NewFileHandler (Some MockCache_Cache) MockStorage_Storage)
             \<lparr>PathValue_name = ''a.txt'', ctx_Err = None\<rparr>
             (NewWorld NewMockCache (NewMockStorage\<lparr>MockStorage_GetError := Some ErrStorageError\<rparr>)))
       = writeJSON StatusInternalServerError
           \<lparr>Success = False, Message = ''Failed to retrieve file'', Data = None\<rparr>
   \<and> fst (GetFile (mime_TypeByExtension []) (NewFileHandler (Some MockCache_Cache) MockStorage_Storage)
             \<lparr>PathValue_name = ''a.txt'', ctx_Err = Some DeadlineExceeded\<rparr>
             (NewWorld NewMockCache (NewMockStorage\<lparr>MockStorage_GetError := Some ErrStorageError\<rparr>)))
       = writeJSON StatusGatewayTimeout
           \<lparr>Success = False, Message = ''Request timeout'', Data = None\<rparr>
   \<and> \<not> fst (snd (fst (Cache_Get MockCache_Cache (WithTimeout RequestContext (30 * Second)) ''a.txt''
                (cacheState (NewWorld NewMockCache NewMockStorage)))))
   \<and> fst (Storage_GetObject MockStorage_Storage (WithTimeout RequestContext (30 * Second)) ''a.txt''
             (storageState (NewWorld NewMockCache NewMockStorage)))
       = ([], Some ErrObjectNotFound)
   \<and> fst (GetFile (mime_TypeByExtension []) (NewFileHandler (Some MockCache_Cache) MockStorage_Storage)
             \<lparr>PathValue_name = ''a.txt'', ctx_Err = None\<rparr>
             (NewWorld NewMockCache NewMockStorage))
       = writeJSON StatusNotFound \<lparr>Success = False, Message = ''File not found'', Data = None\<rparr>"
proof -
  let ?r = "\<lparr>PathValue_name = ''a.txt'', ctx_Err = None\<rparr>"
  let ?rt = "\<lparr>PathValue_name = ''a.txt'', ctx_Err = Some DeadlineExceeded\<rparr>"
  let ?h = "NewFileHandler (Some MockCache_Cache) MockStorage_Storage"
  let ?w = "NewWorld NewMockCache (NewMockStorage\<lparr>MockStorage_GetError := Some ErrStorageError\<rparr>)"
  let ?we = "NewWorld NewMockCache NewMockStorage"
  let ?ctx = "WithTimeout RequestContext (30 * Second)"
  have a1: "PathValue_name ?r \<noteq> []" and a1t: "PathValue_name ?rt \<noteq> []" by simp_all
  have sh: "storage ?h = MockStorage_Storage" by (simp add: NewFileHandler_def)
  have ch: "cache ?h = Some MockCache_Cache" by (simp add: NewFileHandler_def)
  have m: "\<not> fst (snd (fst (Cache_Get MockCache_Cache ?ctx ''a.txt'' (cacheState ?w))))"
    and me: "\<not> fst (snd (fst (Cache_Get MockCache_Cache ?ctx ''a.txt'' (cacheState ?we))))"
    by (simp_all add: mock_defs)
  have a2: "\<forall>c. cache ?h = Some c \<longrightarrow> \<not> fst (snd (fst (Cache_Get c ?ctx (PathValue_name ?r) (cacheState ?w))))"
    and a2t: "\<forall>c. cache ?h = Some c \<longrightarrow> \<not> fst (snd (fst (Cache_Get c ?ctx (PathValue_name ?rt) (cacheState ?w))))"
    and a2e: "\<forall>c. cache ?h = Some c \<longrightarrow> \<not> fst (snd (fst (Cache_Get c ?ctx (PathValue_name ?r) (cacheState ?we))))"
    using m me by (simp_all add: ch)
  have a3: "fst (Storage_GetObject (storage ?h) ?ctx (PathValue_name ?r) (storageState ?w))
              = ([], Some ErrStorageError)"
    and a3t: "fst (Storage_GetObject (storage ?h) ?ctx (PathValue_name ?rt) (storageState ?w))
              = ([], Some ErrStorageError)"
    and a3e: "fst (Storage_GetObject (storage ?h) ?ctx (PathValue_name ?r) (storageState ?we))
              = ([], Some ErrObjectNotFound)"
    by (simp_all add: mock_defs)
  from GetFile_storage_error_classification [OF a1 a2 a3, of "mime_TypeByExtension []"]
       GetFile_storage_error_classification [OF a1t a2t a3t, of "mime_TypeByExtension []"]
       GetFile_storage_error_classification [OF a1 a2e a3e, of "mime_TypeByExtension []"]
       a1 a1t m me a3 a3e sh ch
  show ?thesis
    by (simp add: isNotFoundError_ErrStorageError isNotFoundError_ErrObjectNotFound)
qed

text \<open>
  C4. The health response is decided by the storage health check alone. If it
  fails the response is 503, \<open>success = false\<close>, status "unhealthy", with the
  failure text in the field \<open>r2\<close>; if it succeeds the response is 200,
  \<open>success = true\<close>, status "healthy". In both cases the cache contributes only
  the field \<open>redis\<close>: "disabled", "healthy", or "unhealthy: " and the ping error.
\<close>

theorem Health_storage_decides:
  "fst (Health h w) =
     (let redis = (case cache h of
                     None \<Rightarrow> ''disabled''
                   | Some c \<Rightarrow>
                       (case fst (Cache_Ping c (WithTimeout RequestContext (5 * Second)) (cacheState w)) of
                          None \<Rightarrow> ''healthy''
                        | Some pe \<Rightarrow> ''unhealthy: '' @ pe))
      in case fst (Storage_HealthCheck (storage h) (WithTimeout RequestContext (5 * Second)) (storageState w)) of
           Some e \<Rightarrow>
             \<lparr>StatusCode = StatusServiceUnavailable,
              Header = [''Content-Type'' \<mapsto> ''application/json''],
              Body = JSON \<lparr>Success = False, Message = ''Service is unhealthy'',
                Data = Some [''status'' \<mapsto> ''unhealthy'', ''redis'' \<mapsto> redis,
                             ''r2'' \<mapsto> ''unhealthy: '' @ e]\<rparr>\<rparr>
         | None \<Rightarrow>
             \<lparr>StatusCode = StatusOK,
              Header = [''Content-Type'' \<mapsto> ''application/json''],
              Body = JSON \<lparr>Success = True, Message = ''Service is healthy'',
                Data = Some [''status'' \<mapsto> ''healthy'', ''redis'' \<mapsto> redis,
                             ''r2'' \<mapsto> ''healthy'']\<rparr>\<rparr>)
   \<and> StatusCode (fst (Health h w)) =
       (case fst (Storage_HealthCheck (storage h) (WithTimeout RequestContext (5 * Second)) (storageState w)) of
          Some e \<Rightarrow> StatusServiceUnavailable
        | None \<Rightarrow> StatusOK)"
  by (simp add: Health_response writeJSON_def Let_def split: option.split)

theorem Health_storage_decides_witness:
  "fst (Health (NewFileHandler (Some MockCache_Cache) MockStorage_Storage)
          (NewWorld (NewMockCache\<lparr>MockCache_PingError := Some ErrCacheUnavailable\<rparr>) NewMockStorage))
     = \<lparr>StatusCode = StatusOK,
        Header = [''Content-Type'' \<mapsto> ''application/json''],
        Body = JSON \<lparr>Success = True, Message = ''Service is healthy'',
          Data = Some [''status'' \<mapsto> ''healthy'', ''redis'' \<mapsto> ''unhealthy: cache unavailable'',
                       ''r2'' \<mapsto> ''healthy'']\<rparr>\<rparr>
   \<and> fst (Health (NewFileHandler (Some MockCache_Cache) MockStorage_Storage)
          (NewWorld NewMockCache (NewMockStorage\<lparr>MockStorage_HealthCheckError := Some ErrBucketNotFound\<rparr>)))
     = \<lparr>StatusCode = StatusServiceUnavailable,
        Header = [''Content-Type'' \<mapsto> ''application/json''],
        Body = JSON \<lparr>Success = False, Message = ''Service is unhealthy'',
          Data = Some [''status'' \<mapsto> ''unhealthy'', ''redis'' \<mapsto> ''healthy'',
                       ''r2'' \<mapsto> ''unhealthy: bucket not found'']\<rparr>\<rparr>"
  using Health_storage_decides [of "NewFileHandler (Some MockCache_Cache) MockStorage_Storage"
          "NewWorld (NewMockCache\<lparr>MockCache_PingError := Some ErrCacheUnavailable\<rparr>) NewMockStorage"]
        Health_storage_decides [of "NewFileHandler (Some MockCache_Cache) MockStorage_Storage"
          "NewWorld NewMockCache (NewMockStorage\<lparr>MockStorage_HealthCheckError := Some ErrBucketNotFound\<rparr>)"]
  by (simp add: mock_defs ErrCacheUnavailable_def ErrBucketNotFound_def)

text \<open>
  C5. With no cache configured, a retrieval (of a non-empty name) makes exactly
  one port call, \<open>GetObject\<close>, leaves the cache state alone, starts no goroutine and
  answers with what storage gave; and \<open>Health\<close> makes exactly one port call, the
  storage health check, and reports the field \<open>redis\<close> as "disabled" in a response
  whose status is decided by storage alone.
\<close>

theorem disabled_cache_transparency:
  assumes "cache h = None" and "PathValue_name r \<noteq> []"
  shows "portCalls (snd (GetFile T h r w)) = portCalls w @ [StorageGetObject (PathValue_name r)]
       \<and> cacheState (snd (GetFile T h r w)) = cacheState w
       \<and> goroutines (snd (GetFile T h r w)) = goroutines w
       \<and> fst (GetFile T h r w) =
           (case fst (Storage_GetObject (storage h) (WithTimeout RequestContext (30 * Second))
                        (PathValue_name r) (storageState w)) of
              (data, None) \<Rightarrow> writeFileResponse T (PathValue_name r) data
            | (data, Some e) \<Rightarrow>
                if ctx_Err r = Some DeadlineExceeded then
                  writeJSON StatusGatewayTimeout \<lparr>Success = False, Message = ''Request timeout'', Data = None\<rparr>
                else if isNotFoundError e then
                  writeJSON StatusNotFound \<lparr>Success = False, Message = ''File not found'', Data = None\<rparr>
                else
                  writeJSON StatusInternalServerError
                    \<lparr>Success = False, Message = ''Failed to retrieve file'', Data = None\<rparr>)
       \<and> portCalls (snd (Health h w)) = portCalls w @ [StorageHealthCheck]
       \<and> cacheState (snd (Health h w)) = cacheState w
       \<and> fst (Health h w) =
           (case fst (Storage_HealthCheck (storage h) (WithTimeout RequestContext (5 * Second)) (storageState w)) of
              Some e \<Rightarrow>
                writeJSON StatusServiceUnavailable
                  \<lparr>Success = False, Message = ''Service is unhealthy'',
                   Data = Some [''status'' \<mapsto> ''unhealthy'', ''redis'' \<mapsto> ''disabled'',
                                ''r2'' \<mapsto> ''unhealthy: '' @ e]\<rparr>
            | None \<Rightarrow>
                writeJSON StatusOK
                  \<lparr>Success = True, Message = ''Service is healthy'',
                   Data = Some [''status'' \<mapsto> ''healthy'', ''redis'' \<mapsto> ''disabled'',
                                ''r2'' \<mapsto> ''healthy'']\<rparr>)"
proof -
  let ?ctx = "WithTimeout RequestContext (30 * Second)"
  let ?w1 = "slog_Info ''Cache disabled, fetching from storage'' [(''filename'', PathValue_name r)] w"
  have run: "GetFile T h r w = GetFile_storage T h r ?ctx (PathValue_name r) ?w1"
    using assms by (simp add: GetFile_disabled)
  have w1: "portCalls ?w1 = portCalls w" "cacheState ?w1 = cacheState w"
    "goroutines ?w1 = goroutines w" "storageState ?w1 = storageState w"
    by (simp_all add: slog_Info_def)
  have g1: "portCalls (snd (GetFile T h r w)) = portCalls w @ [StorageGetObject (PathValue_name r)]"
    unfolding run by (simp add: GetFile_storage_portCalls w1)
  have g2: "cacheState (snd (GetFile T h r w)) = cacheState w"
    unfolding run by (simp add: GetFile_storage_cacheState w1)
  have g3: "goroutines (snd (GetFile T h r w)) = goroutines w"
    unfolding run using assms(1) by (simp add: GetFile_storage_goroutines w1 split: option.split)
  have g4: "fst (GetFile T h r w) =
           (case fst (Storage_GetObject (storage h) ?ctx (PathValue_name r) (storageState w)) of
              (data, None) \<Rightarrow> writeFileResponse T (PathValue_name r) data
            | (data, Some e) \<Rightarrow>
                if ctx_Err r = Some DeadlineExceeded then
                  writeJSON StatusGatewayTimeout \<lparr>Success = False, Message = ''Request timeout'', Data = None\<rparr>
                else if isNotFoundError e then
                  writeJSON StatusNotFound \<lparr>Success = False, Message = ''File not found'', Data = None\<rparr>
                else
                  writeJSON StatusInternalServerError
                    \<lparr>Success = False, Message = ''Failed to retrieve file'', Data = None\<rparr>)"
    unfolding run by (simp add: GetFile_storage_response w1)
  have h1: "portCalls (snd (Health h w)) = portCalls w @ [StorageHealthCheck]"
    using assms(1) by (simp add: Health_portCalls)
  have h2: "cacheState (snd (Health h w)) = cacheState w"
    using assms(1) by (rule Health_cacheState_disabled)
  have h3: "fst (Health h w) =
           (case fst (Storage_HealthCheck (storage h) (WithTimeout RequestContext (5 * Second)) (storageState w)) of
              Some e \<Rightarrow>
                writeJSON StatusServiceUnavailable
                  \<lparr>Success = False, Message = ''Service is unhealthy'',
                   Data = Some [''status'' \<mapsto> ''unhealthy'', ''redis'' \<mapsto> ''disabled'',
                                ''r2'' \<mapsto> ''unhealthy: '' @ e]\<rparr>
            | None \<Rightarrow>
                writeJSON StatusOK
                  \<lparr>Success = True, Message = ''Service is healthy'',
                   Data = Some [''status'' \<mapsto> ''healthy'', ''redis'' \<mapsto> ''disabled'',
                                ''r2'' \<mapsto> ''healthy'']\<rparr>)"
    using assms(1) by (simp add: Health_response Let_def)
  from g1 g2 g3 g4 h1 h2 h3 show ?thesis by blast
qed

theorem disabled_cache_transparency_witness:
  "cache (NewFileHandler None MockStorage_Storage :: (MockCache, MockStorage) FileHandler) = None
   \<and> PathValue_name \<lparr>PathValue_name = ''a.txt'', ctx_Err = None\<rparr> \<noteq> []
   \<and> portCalls (snd (GetFile (mime_TypeByExtension []) (NewFileHandler None MockStorage_Storage)
                  \<lparr>PathValue_name = ''a.txt'', ctx_Err = None\<rparr>
                  (NewWorld NewMockCache (MockStorage_SetObject ''a.txt'' ''hello'' NewMockStorage))))
       = [StorageGetObject ''a.txt'']
   \<and> fst (GetFile (mime_TypeByExtension []) (NewFileHandler None MockStorage_Storage)
                  \<lparr>PathValue_name = ''a.txt'', ctx_Err = None\<rparr>
                  (NewWorld NewMockCache (MockStorage_SetObject ''a.txt'' ''hello'' NewMockStorage)))
       = writeFileResponse (mime_TypeByExtension []) ''a.txt'' ''hello''
   \<and> fst (Health (NewFileHandler None MockStorage_Storage)
                  (NewWorld NewMockCache (MockStorage_SetObject ''a.txt'' ''hello'' NewMockStorage)))
       = writeJSON StatusOK
           \<lparr>Success = True, Message = ''Service is healthy'',
            Data = Some [''status'' \<mapsto> ''healthy'', ''redis'' \<mapsto> ''disabled'', ''r2'' \<mapsto> ''healthy'']\<rparr>"
proof -
  let ?r = "\<lparr>PathValue_name = ''a.txt'', ctx_Err = None\<rparr>"
  let ?h = "NewFileHandler None MockStorage_Storage :: (MockCache, MockStorage) FileHandler"
  let ?w = "NewWorld NewMockCache (MockStorage_SetObject ''a.txt'' ''hello'' NewMockStorage)"
  have a1: "cache ?h = None" by (simp add: NewFileHandler_def)
  have a2: "PathValue_name ?r \<noteq> []" by simp
  have sh: "storage ?h = MockStorage_Storage" by (simp add: NewFileHandler_def)
  have pc: "portCalls ?w = []" by (simp add: NewWorld_def)
  have g: "fst (Storage_GetObject MockStorage_Storage (WithTimeout RequestContext (30 * Second)) ''a.txt''
                  (storageState ?w)) = (''hello'', None)"
    by (simp add: mock_defs)
  have hc: "fst (Storage_HealthCheck MockStorage_Storage (WithTimeout RequestContext (5 * Second))
                  (storageState ?w)) = None"
    by (simp add: mock_defs)
  from disabled_cache_transparency [OF a1 a2, of "mime_TypeByExtension []" ?w] a1 a2 sh pc g hc
  show ?thesis by simp
qed


text \<open>
  C6. With the mock cache working (no \<open>GetError\<close>, no \<open>SetError\<close>) and the name
  absent from it, a \<open>GetFile\<close> that gets bytes \<open>b\<close> from storage answers with \<open>b\<close>
  and starts one goroutine, the write-back of exactly that name and \<open>b\<close>. Once
  that goroutine has run, the cache maps the name to \<open>b\<close> and nothing else has
  changed in it, and the next \<open>GetFile\<close> of the name answers 200 with \<open>b\<close> from
  the cache: its only port call is the cache lookup and the storage state is untouched.
\<close>

theorem write_back_then_cache_hit:
  fixes w :: "(MockCache, 's) World" and h :: "(MockCache, 's) FileHandler"
    and T :: "string \<Rightarrow> string" and r :: Request and b :: bytes
  defines "w1 \<equiv> snd (GetFile T h r w)"
  defines "w2 \<equiv> run_Goroutine h (WriteBack (PathValue_name r) b) w1"
  assumes "PathValue_name r \<noteq> []" and "PathValue_name r' = PathValue_name r"
    and "cache h = Some MockCache_Cache"
    and "MockCache_GetError (cacheState w) = None"
    and "MockCache_SetError (cacheState w) = None"
    and "MockCache_data (cacheState w) (PathValue_name r) = None"
    and "fst (Storage_GetObject (storage h) (WithTimeout RequestContext (30 * Second)) (PathValue_name r)
                (storageState w)) = (b, None)"
  shows "fst (GetFile T h r w) = writeFileResponse T (PathValue_name r) b
       \<and> goroutines w1 = goroutines w @ [WriteBack (PathValue_name r) b]
       \<and> portCalls w2 = portCalls w1 @ [CacheSet (PathValue_name r) b]
       \<and> MockCache_data (cacheState w2) = (MockCache_data (cacheState w))(PathValue_name r \<mapsto> b)
       \<and> fst (GetFile T h r' w2) = writeFileResponse T (PathValue_name r) b
       \<and> StatusCode (fst (GetFile T h r' w2)) = StatusOK
       \<and> Body (fst (GetFile T h r' w2)) = Raw b
       \<and> portCalls (snd (GetFile T h r' w2)) = portCalls w2 @ [CacheGet (PathValue_name r)]
       \<and> storageState (snd (GetFile T h r' w2)) = storageState w1"
proof -
  let ?ctx = "WithTimeout RequestContext (30 * Second)"
  let ?k = "PathValue_name r"
  have miss: "fst (Cache_Get MockCache_Cache ?ctx ?k (cacheState w)) = ([], False, None)"
    using assms(6,8) by (simp add: MockCache_Cache_def MockCache_Get_def Let_def)
  note run = GetFile_miss [OF assms(3) assms(5) miss, of T]
  let ?w4 = "slog_Info ''Cache MISS'' [(''filename'', ?k)]
               (CacheMissesTotal_Inc (snd (call_Get MockCache_Cache ?ctx ?k w)))"
  have run': "GetFile T h r w = GetFile_storage T h r ?ctx ?k ?w4"
    using run by simp
  have w4: "storageState ?w4 = storageState w" "goroutines ?w4 = goroutines w"
    "cacheState ?w4 = snd (MockCache_Get ?ctx ?k (cacheState w))"
    by (simp_all add: world_defs split_def Let_def MockCache_Cache_def)
  have r1: "fst (GetFile T h r w) = writeFileResponse T ?k b"
    unfolding run' using assms(9) by (simp add: GetFile_storage_response w4)
  have g1: "goroutines w1 = goroutines w @ [WriteBack ?k b]"
    unfolding w1_def run' using assms(5,9) by (simp add: GetFile_storage_goroutines w4)
  have c1: "cacheState w1 = snd (MockCache_Get ?ctx ?k (cacheState w))"
    unfolding w1_def run' by (simp add: GetFile_storage_cacheState w4)
  have c1_data: "MockCache_data (cacheState w1) = MockCache_data (cacheState w)"
    and c1_get: "MockCache_GetError (cacheState w1) = None"
    and c1_set: "MockCache_SetError (cacheState w1) = None"
    using assms(6,7) unfolding c1 by (simp_all add: MockCache_Get_def Let_def split: option.split)
  have p2: "portCalls w2 = portCalls w1 @ [CacheSet ?k b]"
    unfolding w2_def using assms(5)
    by (simp add: run_Goroutine_def world_defs Let_def split_def split: option.split)
  have s2: "storageState w2 = storageState w1"
    unfolding w2_def using assms(5)
    by (simp add: run_Goroutine_def world_defs Let_def split_def split: option.split)
  have c2: "cacheState w2 = snd (MockCache_Set (WithTimeout Background (30 * Second)) ?k b (cacheState w1))"
    unfolding w2_def using assms(5)
    by (simp add: run_Goroutine_def world_defs Let_def split_def MockCache_Cache_def split: option.split)
  have d2: "MockCache_data (cacheState w2) = (MockCache_data (cacheState w))(?k \<mapsto> b)"
    unfolding c2 using c1_set c1_data by (simp add: MockCache_Set_def Let_def)
  have e2: "MockCache_GetError (cacheState w2) = None"
    unfolding c2 using c1_set c1_get by (simp add: MockCache_Set_def Let_def)
  have hit: "fst (Cache_Get MockCache_Cache ?ctx (PathValue_name r') (cacheState w2)) = (b, True, None)"
    using d2 e2 assms(4) by (simp add: MockCache_Cache_def MockCache_Get_def Let_def)
  have n': "PathValue_name r' \<noteq> []" using assms(3,4) by simp
  note second = GetFile_hit [OF n' assms(5) hit, of T]
  from r1 g1 p2 d2 second(1-3) s2 assms(4)
  show ?thesis by (simp add: writeFileResponse_StatusCode writeFileResponse_Body)
qed

theorem write_back_then_cache_hit_witness:
  "PathValue_name \<lparr>PathValue_name = ''k.bin'', ctx_Err = None\<rparr> \<noteq> []
   \<and> cache (NewFileHandler (Some MockCache_Cache) MockStorage_Storage) = Some MockCache_Cache
   \<and> MockCache_GetError (cacheState (NewWorld NewMockCache (MockStorage_SetObject ''k.bin'' ''bytes'' NewMockStorage))) = None
   \<and> MockCache_SetError (cacheState (NewWorld NewMockCache (MockStorage_SetObject ''k.bin'' ''bytes'' NewMockStorage))) = None
   \<and> MockCache_data (cacheState (NewWorld NewMockCache (MockStorage_SetObject ''k.bin'' ''bytes'' NewMockStorage))) ''k.bin'' = None
   \<and> fst (Storage_GetObject MockStorage_Storage (WithTimeout RequestContext (30 * Second)) ''k.bin''
            (storageState (NewWorld NewMockCache (MockStorage_SetObject ''k.bin'' ''bytes'' NewMockStorage))))
       = (''bytes'', None)
   \<and> Body (fst (GetFile (mime_TypeByExtension []) (NewFileHandler (Some MockCache_Cache) MockStorage_Storage)
        \<lparr>PathValue_name = ''k.bin'', ctx_Err = None\<rparr>
        (run_Goroutine (NewFileHandler (Some MockCache_Cache) MockStorage_Storage) (WriteBack ''k.bin'' ''bytes'')
           (snd (GetFile (mime_TypeByExtension []) (NewFileHandler (Some MockCache_Cache) MockStorage_Storage)
                   \<lparr>PathValue_name = ''k.bin'', ctx_Err = None\<rparr>
                   (NewWorld NewMockCache (MockStorage_SetObject ''k.bin'' ''bytes'' NewMockStorage)))))))
       = Raw ''bytes''"
proof -
  let ?r = "\<lparr>PathValue_name = ''k.bin'', ctx_Err = None\<rparr>"
  let ?h = "NewFileHandler (Some MockCache_Cache) MockStorage_Storage"
  let ?w = "NewWorld NewMockCache (MockStorage_SetObject ''k.bin'' ''bytes'' NewMockStorage)"
  have a1: "PathValue_name ?r \<noteq> []" by simp
  have a2: "PathValue_name ?r = PathValue_name ?r" by simp
  have a3: "cache ?h = Some MockCache_Cache" by (simp add: NewFileHandler_def)
  have a4: "MockCache_GetError (cacheState ?w) = None" by (simp add: mock_defs)
  have a5: "MockCache_SetError (cacheState ?w) = None" by (simp add: mock_defs)
  have a6: "MockCache_data (cacheState ?w) (PathValue_name ?r) = None" by (simp add: mock_defs)
  have a7: "fst (Storage_GetObject (storage ?h) (WithTimeout RequestContext (30 * Second)) (PathValue_name ?r)
                   (storageState ?w)) = (''bytes'', None)"
    by (simp add: mock_defs)
  have sh: "storage ?h = MockStorage_Storage" by (simp add: NewFileHandler_def)
  from write_back_then_cache_hit [OF a1 a2 a3 a4 a5 a6 a7, of "mime_TypeByExtension []"] a1 a3 a4 a5 a6 a7 sh
  show ?thesis by simp
qed


text \<open>The scenario of the empty cache and the single stored file, for any table.\<close>

lemma writeFileResponse_ContentType:
  "Header (writeFileResponse T filename data) ''Content-Type'' =
     Some (if T (Ext filename) = [] then ''application/octet-stream'' else T (Ext filename))"
  by (simp add: writeFileResponse_def Let_def)

lemma a_txt_run:
  fixes T :: "string \<Rightarrow> string" and ce1 ce2 :: "ContextError option"
  defines "h \<equiv> NewFileHandler (Some MockCache_Cache) MockStorage_Storage"
  defines "g1 \<equiv> GetFile T h \<lparr>PathValue_name = ''a.txt'', ctx_Err = ce1\<rparr>
                   (NewWorld NewMockCache (MockStorage_SetObject ''a.txt'' ''hello'' NewMockStorage))"
  defines "g2 \<equiv> GetFile T h \<lparr>PathValue_name = ''a.txt'', ctx_Err = ce2\<rparr> (settle h (snd g1))"
  shows "fst g1 = writeFileResponse T ''a.txt'' ''hello''"
    and "portCalls (snd g1) = [CacheGet ''a.txt'', StorageGetObject ''a.txt'']"
    and "MockStorage_GetCalls (storageState (snd g1)) = [''a.txt'']"
    and "goroutines (snd g1) = [WriteBack ''a.txt'' ''hello'']"
    and "MockCache_data (cacheState (settle h (snd g1))) ''a.txt'' = Some ''hello''"
    and "goroutines (settle h (snd g1)) = []"
    and "fst g2 = writeFileResponse T ''a.txt'' ''hello''"
    and "portCalls (snd g2) = portCalls (settle h (snd g1)) @ [CacheGet ''a.txt'']"
    and "MockStorage_GetCalls (storageState (snd g2)) = [''a.txt'']"
proof -
  let ?w1 = "\<lparr>cacheState = NewMockCache\<lparr>MockCache_GetCalls := [''a.txt'']\<rparr>,
              storageState = (MockStorage_SetObject ''a.txt'' ''hello'' NewMockStorage)
                               \<lparr>MockStorage_GetCalls := [''a.txt'']\<rparr>,
              portCalls = [CacheGet ''a.txt'', StorageGetObject ''a.txt''],
              slog = [(INFO, ''Cache MISS'', [(''filename'', ''a.txt'')])],
              metrics = \<lparr>CacheHitsTotal = 0, CacheMissesTotal = 1,
                         R2RequestsTotal = (\<lambda>_. 0)((''get'', ''success'') := 1)\<rparr>,
              goroutines = [WriteBack ''a.txt'' ''hello'']\<rparr>"
  have first: "g1 = (writeFileResponse T ''a.txt'' ''hello'', ?w1)"
    unfolding g1_def h_def
    by (simp add: GetFile_def GetFile_storage_def world_defs mock_defs Let_def)
  have settled: "settle h (snd g1) =
      ?w1\<lparr>cacheState := NewMockCache\<lparr>MockCache_GetCalls := [''a.txt''],
               MockCache_SetCalls := [\<lparr>SetCall_Key = ''a.txt'', SetCall_Data = ''hello''\<rparr>],
               MockCache_data := [''a.txt'' \<mapsto> ''hello'']\<rparr>,
           portCalls := [CacheGet ''a.txt'', StorageGetObject ''a.txt'', CacheSet ''a.txt'' ''hello''],
           slog := [(INFO, ''Cache MISS'', [(''filename'', ''a.txt'')]),
                    (INFO, ''Cached file'', [(''filename'', ''a.txt'')])],
           goroutines := []\<rparr>"
    unfolding first h_def
    by (simp add: settle_def run_Goroutine_def world_defs mock_defs Let_def)
  have second: "fst g2 = writeFileResponse T ''a.txt'' ''hello''"
    "portCalls (snd g2) = portCalls (settle h (snd g1)) @ [CacheGet ''a.txt'']"
    "storageState (snd g2) = storageState (settle h (snd g1))"
    unfolding g2_def settled unfolding h_def
    by (simp_all add: GetFile_def world_defs mock_defs Let_def)
  show "fst g1 = writeFileResponse T ''a.txt'' ''hello''"
    and "portCalls (snd g1) = [CacheGet ''a.txt'', StorageGetObject ''a.txt'']"
    and "MockStorage_GetCalls (storageState (snd g1)) = [''a.txt'']"
    and "goroutines (snd g1) = [WriteBack ''a.txt'' ''hello'']"
    unfolding first by (simp_all add: mock_defs)
  show "MockCache_data (cacheState (settle h (snd g1))) ''a.txt'' = Some ''hello''"
    and "goroutines (settle h (snd g1)) = []"
    unfolding settled by simp_all
  show "fst g2 = writeFileResponse T ''a.txt'' ''hello''"
    and "portCalls (snd g2) = portCalls (settle h (snd g1)) @ [CacheGet ''a.txt'']"
    by (rule second)+
  show "MockStorage_GetCalls (storageState (snd g2)) = [''a.txt'']"
    unfolding second settled by (simp add: mock_defs)
qed

text \<open>
  C7, as stated, fails on the content type. With the table of a host that lists
  \<open>text/plain\<close> for \<open>.txt\<close> the first response of the scenario carries
  \<open>text/plain; charset=utf-8\<close>, and with the table of a host without MIME files it
  carries \<open>application/octet-stream\<close>; in neither is it \<open>text/plain\<close>.
\<close>

theorem scenario_a_txt_counterexample:
  "\<not> (StatusCode (fst (GetFile (mime_TypeByExtension [(''.txt'', ''text/plain'')])
             (NewFileHandler (Some MockCache_Cache) MockStorage_Storage)
             \<lparr>PathValue_name = ''a.txt'', ctx_Err = None\<rparr>
             (NewWorld NewMockCache (MockStorage_SetObject ''a.txt'' ''hello'' NewMockStorage)))) = StatusOK
      \<and> Body (fst (GetFile (mime_TypeByExtension [(''.txt'', ''text/plain'')])
             (NewFileHandler (Some MockCache_Cache) MockStorage_Storage)
             \<lparr>PathValue_name = ''a.txt'', ctx_Err = None\<rparr>
             (NewWorld NewMockCache (MockStorage_SetObject ''a.txt'' ''hello'' NewMockStorage)))) = Raw ''hello''
      \<and> Header (fst (GetFile (mime_TypeByExtension [(''.txt'', ''text/plain'')])
             (NewFileHandler (Some MockCache_Cache) MockStorage_Storage)
             \<lparr>PathValue_name = ''a.txt'', ctx_Err = None\<rparr>
             (NewWorld NewMockCache (MockStorage_SetObject ''a.txt'' ''hello'' NewMockStorage))))
           ''Content-Type'' = Some ''text/plain'')
   \<and> Header (fst (GetFile (mime_TypeByExtension [(''.txt'', ''text/plain'')])
             (NewFileHandler (Some MockCache_Cache) MockStorage_Storage)
             \<lparr>PathValue_name = ''a.txt'', ctx_Err = None\<rparr>
             (NewWorld NewMockCache (MockStorage_SetObject ''a.txt'' ''hello'' NewMockStorage))))
        ''Content-Type'' = Some ''text/plain; charset=utf-8''
   \<and> Header (fst (GetFile (mime_TypeByExtension [])
             (NewFileHandler (Some MockCache_Cache) MockStorage_Storage)
             \<lparr>PathValue_name = ''a.txt'', ctx_Err = None\<rparr>
             (NewWorld NewMockCache (MockStorage_SetObject ''a.txt'' ''hello'' NewMockStorage))))
        ''Content-Type'' = Some ''application/octet-stream''"
proof -
  have host: "mime_TypeByExtension [(''.txt'', ''text/plain'')] ''.txt'' = ''text/plain; charset=utf-8''"
    by (rule mime_TypeByExtension_txt_host) simp
  show ?thesis
    unfolding a_txt_run(1) writeFileResponse_ContentType Ext_a_txt host mime_TypeByExtension_txt_no_host
    by simp
qed

text \<open>
  C7, amended. The scenario: an empty mock cache and a mock storage holding only
  \<open>a.txt\<close> with content \<open>hello\<close>, on any host. The first request for \<open>a.txt\<close>
  answers 200 with body \<open>hello\<close> after one \<open>GetObject\<close>, and starts the write-back.
  Once the write-back has run, the same request answers 200 with body \<open>hello\<close>
  again, its only port call is the cache lookup, and \<open>GetCalls\<close> of the storage mock
  still has its single entry. Both responses carry as \<open>Content-Type\<close> what
  \<open>mime.TypeByExtension\<close> gives for \<open>.txt\<close>: \<open>text/plain; charset=utf-8\<close> on a host
  that lists \<open>text/plain\<close> for \<open>.txt\<close>, \<open>application/octet-stream\<close> on a host
  without MIME files, and on no host the bare \<open>text/plain\<close>.
\<close>

theorem scenario_a_txt:
  fixes host :: "(string \<times> string) list" and ce1 ce2 :: "ContextError option"
  defines "h \<equiv> NewFileHandler (Some MockCache_Cache) MockStorage_Storage"
  defines "g1 \<equiv> GetFile (mime_TypeByExtension host) h \<lparr>PathValue_name = ''a.txt'', ctx_Err = ce1\<rparr>
                   (NewWorld NewMockCache (MockStorage_SetObject ''a.txt'' ''hello'' NewMockStorage))"
  defines "g2 \<equiv> GetFile (mime_TypeByExtension host) h \<lparr>PathValue_name = ''a.txt'', ctx_Err = ce2\<rparr>
                   (settle h (snd g1))"
  shows "StatusCode (fst g1) = StatusOK
       \<and> Body (fst g1) = Raw ''hello''
       \<and> portCalls (snd g1) = [CacheGet ''a.txt'', StorageGetObject ''a.txt'']
       \<and> MockStorage_GetCalls (storageState (snd g1)) = [''a.txt'']
       \<and> goroutines (snd g1) = [WriteBack ''a.txt'' ''hello'']
       \<and> MockCache_data (cacheState (settle h (snd g1))) ''a.txt'' = Some ''hello''
       \<and> goroutines (settle h (snd g1)) = []
       \<and> StatusCode (fst g2) = StatusOK
       \<and> Body (fst g2) = Raw ''hello''
       \<and> portCalls (snd g2) = portCalls (settle h (snd g1)) @ [CacheGet ''a.txt'']
       \<and> MockStorage_GetCalls (storageState (snd g2)) = [''a.txt'']
       \<and> length (MockStorage_GetCalls (storageState (snd g2))) = 1
       \<and> Header (fst g1) ''Content-Type'' =
           Some (if mime_TypeByExtension host ''.txt'' = [] then ''application/octet-stream''
                 else mime_TypeByExtension host ''.txt'')
       \<and> Header (fst g2) ''Content-Type'' = Header (fst g1) ''Content-Type''
       \<and> Header (fst g1) ''Content-Type'' \<noteq> Some ''text/plain''
       \<and> (map_of host ''.txt'' = Some ''text/plain'' \<longrightarrow>
            Header (fst g1) ''Content-Type'' = Some ''text/plain; charset=utf-8''
          \<and> Header (fst g2) ''Content-Type'' = Some ''text/plain; charset=utf-8'')
       \<and> (host = [] \<longrightarrow>
            Header (fst g1) ''Content-Type'' = Some ''application/octet-stream''
          \<and> Header (fst g2) ''Content-Type'' = Some ''application/octet-stream'')"
proof -
  have run: "fst g1 = writeFileResponse (mime_TypeByExtension host) ''a.txt'' ''hello''"
    "portCalls (snd g1) = [CacheGet ''a.txt'', StorageGetObject ''a.txt'']"
    "MockStorage_GetCalls (storageState (snd g1)) = [''a.txt'']"
    "goroutines (snd g1) = [WriteBack ''a.txt'' ''hello'']"
    "MockCache_data (cacheState (settle h (snd g1))) ''a.txt'' = Some ''hello''"
    "goroutines (settle h (snd g1)) = []"
    "fst g2 = writeFileResponse (mime_TypeByExtension host) ''a.txt'' ''hello''"
    "portCalls (snd g2) = portCalls (settle h (snd g1)) @ [CacheGet ''a.txt'']"
    "MockStorage_GetCalls (storageState (snd g2)) = [''a.txt'']"
    unfolding g2_def g1_def h_def by (rule a_txt_run)+
  have ct1: "Header (fst g1) ''Content-Type'' =
           Some (if mime_TypeByExtension host ''.txt'' = [] then ''application/octet-stream''
                 else mime_TypeByExtension host ''.txt'')"
    unfolding run(1) by (simp add: writeFileResponse_ContentType Ext_a_txt)
  have ct2: "Header (fst g2) ''Content-Type'' = Header (fst g1) ''Content-Type''"
    unfolding run(1) run(7) by simp
  have bare: "Header (fst g1) ''Content-Type'' \<noteq> Some ''text/plain''"
    unfolding ct1 using mime_TypeByExtension_txt_not_bare [of host] by simp
  have listed: "map_of host ''.txt'' = Some ''text/plain'' \<longrightarrow>
            Header (fst g1) ''Content-Type'' = Some ''text/plain; charset=utf-8''
          \<and> Header (fst g2) ''Content-Type'' = Some ''text/plain; charset=utf-8''"
    unfolding ct2 ct1 by (simp add: mime_TypeByExtension_txt_host)
  have nohost: "host = [] \<longrightarrow>
            Header (fst g1) ''Content-Type'' = Some ''application/octet-stream''
          \<and> Header (fst g2) ''Content-Type'' = Some ''application/octet-stream''"
    unfolding ct2 ct1 by (simp add: mime_TypeByExtension_txt_no_host)
  have rest: "StatusCode (fst g1) = StatusOK" "Body (fst g1) = Raw ''hello''"
    "StatusCode (fst g2) = StatusOK" "Body (fst g2) = Raw ''hello''"
    "length (MockStorage_GetCalls (storageState (snd g2))) = 1"
    unfolding run by simp_all
  from rest run(2-6) run(8,9) ct1 ct2 bare listed nohost show ?thesis by blast
qed

theorem scenario_a_txt_witness:
  "map_of [(''.txt'', ''text/plain'')] ''.txt'' = Some ''text/plain''
   \<and> Header (fst (GetFile (mime_TypeByExtension [(''.txt'', ''text/plain'')])
                (NewFileHandler (Some MockCache_Cache) MockStorage_Storage)
                \<lparr>PathValue_name = ''a.txt'', ctx_Err = None\<rparr>
                (NewWorld NewMockCache (MockStorage_SetObject ''a.txt'' ''hello'' NewMockStorage))))
        ''Content-Type'' = Some ''text/plain; charset=utf-8''
   \<and> Header (fst (GetFile (mime_TypeByExtension [])
                (NewFileHandler (Some MockCache_Cache) MockStorage_Storage)
                \<lparr>PathValue_name = ''a.txt'', ctx_Err = None\<rparr>
                (NewWorld NewMockCache (MockStorage_SetObject ''a.txt'' ''hello'' NewMockStorage))))
        ''Content-Type'' = Some ''application/octet-stream''
   \<and> Body (fst (GetFile (mime_TypeByExtension [(''.txt'', ''text/plain'')])
        (NewFileHandler (Some MockCache_Cache) MockStorage_Storage)
        \<lparr>PathValue_name = ''a.txt'', ctx_Err = None\<rparr>
        (settle (NewFileHandler (Some MockCache_Cache) MockStorage_Storage)
           (snd (GetFile (mime_TypeByExtension [(''.txt'', ''text/plain'')])
                   (NewFileHandler (Some MockCache_Cache) MockStorage_Storage)
                   \<lparr>PathValue_name = ''a.txt'', ctx_Err = None\<rparr>
                   (NewWorld NewMockCache (MockStorage_SetObject ''a.txt'' ''hello'' NewMockStorage)))))))
       = Raw ''hello''
   \<and> MockStorage_GetCalls (storageState (snd (GetFile (mime_TypeByExtension [(''.txt'', ''text/plain'')])
        (NewFileHandler (Some MockCache_Cache) MockStorage_Storage)
        \<lparr>PathValue_name = ''a.txt'', ctx_Err = None\<rparr>
        (settle (NewFileHandler (Some MockCache_Cache) MockStorage_Storage)
           (snd (GetFile (mime_TypeByExtension [(''.txt'', ''text/plain'')])
                   (NewFileHandler (Some MockCache_Cache) MockStorage_Storage)
                   \<lparr>PathValue_name = ''a.txt'', ctx_Err = None\<rparr>
                   (NewWorld NewMockCache (MockStorage_SetObject ''a.txt'' ''hello'' NewMockStorage))))))))
       = [''a.txt'']"
proof -
  have a: "map_of [(''.txt'', ''text/plain'')] ''.txt'' = Some ''text/plain''" by simp
  note listed = scenario_a_txt [of "[(''.txt'', ''text/plain'')]" None None]
  note nohost = scenario_a_txt [of "[]" None None]
  from a listed have c1: "Header (fst (GetFile (mime_TypeByExtension [(''.txt'', ''text/plain'')])
                (NewFileHandler (Some MockCache_Cache) MockStorage_Storage)
                \<lparr>PathValue_name = ''a.txt'', ctx_Err = None\<rparr>
                (NewWorld NewMockCache (MockStorage_SetObject ''a.txt'' ''hello'' NewMockStorage))))
        ''Content-Type'' = Some ''text/plain; charset=utf-8''"
    by blast
  from nohost have c2: "Header (fst (GetFile (mime_TypeByExtension [])
                (NewFileHandler (Some MockCache_Cache) MockStorage_Storage)
                \<lparr>PathValue_name = ''a.txt'', ctx_Err = None\<rparr>
                (NewWorld NewMockCache (MockStorage_SetObject ''a.txt'' ''hello'' NewMockStorage))))
        ''Content-Type'' = Some ''application/octet-stream''"
    by blast
  from a c1 c2 listed show ?thesis by blast
qed

text \<open>
  C8. \<open>writeFileResponse\<close> produces status 200, the bytes as body, the header
  \<open>Content-Disposition: inline; filename="name"\<close>, and as \<open>Content-Type\<close> what the
  table gives for the extension of the name, or \<open>application/octet-stream\<close> when
  the table gives nothing for it. The extension is the part of the name from the
  last dot of its last path element on: a name ending in a dot and a stretch
  \<open>e\<close> without dot or slash gets the table's type for the dot and \<open>e\<close>; a name whose
  last element has no dot, or that has no dot at all, has the empty extension and,
  with a table that has nothing for it, gets \<open>application/octet-stream\<close>. Every 200
  response of \<open>GetFile\<close> is \<open>writeFileResponse\<close> of the requested name and some
  bytes, so it depends on nothing but the table, the name and the bytes.
\<close>

theorem writeFileResponse_shaping:
  "writeFileResponse T filename data =
     \<lparr>StatusCode = StatusOK,
      Header = [''Content-Type'' \<mapsto>
                  (if T (Ext filename) = [] then ''application/octet-stream'' else T (Ext filename)),
                ''Content-Disposition'' \<mapsto> ''inline; filename=\"'' @ filename @ ''\"''],
      Body = Raw data\<rparr>
   \<and> (CHR ''.'' \<notin> set e \<and> CHR ''/'' \<notin> set e \<longrightarrow>
        Ext (p @ CHR ''.'' # e) = CHR ''.'' # e
      \<and> Header (writeFileResponse T (p @ CHR ''.'' # e) data) ''Content-Type'' =
          Some (if T (CHR ''.'' # e) = [] then ''application/octet-stream'' else T (CHR ''.'' # e)))
   \<and> (CHR ''.'' \<notin> set e \<and> CHR ''/'' \<notin> set e \<and> T [] = [] \<longrightarrow>
        Ext (p @ CHR ''/'' # e) = []
      \<and> Header (writeFileResponse T (p @ CHR ''/'' # e) data) ''Content-Type'' =
          Some ''application/octet-stream'')
   \<and> (CHR ''.'' \<notin> set filename \<and> T [] = [] \<longrightarrow>
        Ext filename = []
      \<and> Header (writeFileResponse T filename data) ''Content-Type'' = Some ''application/octet-stream'')
   \<and> (StatusCode (fst (GetFile T h r w)) = StatusOK \<longrightarrow>
        (\<exists>served. fst (GetFile T h r w) = writeFileResponse T (PathValue_name r) served))"
proof -
  have shape: "writeFileResponse T filename data =
     \<lparr>StatusCode = StatusOK,
      Header = [''Content-Type'' \<mapsto>
                  (if T (Ext filename) = [] then ''application/octet-stream'' else T (Ext filename)),
                ''Content-Disposition'' \<mapsto> ''inline; filename=\"'' @ filename @ ''\"''],
      Body = Raw data\<rparr>"
    by (simp add: writeFileResponse_def Let_def)
  have known: "CHR ''.'' \<notin> set e \<and> CHR ''/'' \<notin> set e \<longrightarrow>
        Ext (p @ CHR ''.'' # e) = CHR ''.'' # e
      \<and> Header (writeFileResponse T (p @ CHR ''.'' # e) data) ''Content-Type'' =
          Some (if T (CHR ''.'' # e) = [] then ''application/octet-stream'' else T (CHR ''.'' # e))"
    by (simp add: writeFileResponse_ContentType Ext_last_dot)
  have element: "CHR ''.'' \<notin> set e \<and> CHR ''/'' \<notin> set e \<and> T [] = [] \<longrightarrow>
        Ext (p @ CHR ''/'' # e) = []
      \<and> Header (writeFileResponse T (p @ CHR ''/'' # e) data) ''Content-Type'' =
          Some ''application/octet-stream''"
    by (simp add: writeFileResponse_ContentType Ext_no_dot_in_last_element)
  have absent: "CHR ''.'' \<notin> set filename \<and> T [] = [] \<longrightarrow>
        Ext filename = []
      \<and> Header (writeFileResponse T filename data) ''Content-Type'' = Some ''application/octet-stream''"
    by (simp add: writeFileResponse_ContentType Ext_no_dot)
  have ok: "StatusCode (fst (GetFile T h r w)) = StatusOK \<longrightarrow>
        (\<exists>served. fst (GetFile T h r w) = writeFileResponse T (PathValue_name r) served)"
    using GetFile_OK_is_writeFileResponse [of T h r w] by blast
  from shape known element absent ok show ?thesis by blast
qed

theorem writeFileResponse_shaping_witness:
  "CHR ''.'' \<notin> set ''pdf'' \<and> CHR ''/'' \<notin> set ''pdf''
   \<and> Ext ''docs/report.v2.pdf'' = ''.pdf''
   \<and> writeFileResponse (mime_TypeByExtension []) ''docs/report.v2.pdf'' ''%PDF'' =
       \<lparr>StatusCode = StatusOK,
        Header = [''Content-Type'' \<mapsto> ''application/pdf'',
                  ''Content-Disposition'' \<mapsto> ''inline; filename=\"docs/report.v2.pdf\"''],
        Body = Raw ''%PDF''\<rparr>
   \<and> CHR ''.'' \<notin> set ''README'' \<and> CHR ''/'' \<notin> set ''README'' \<and> mime_TypeByExtension [] [] = []
   \<and> Ext ''v1.2/README'' = []
   \<and> Header (writeFileResponse (mime_TypeByExtension []) ''v1.2/README'' ''text'') ''Content-Type''
       = Some ''application/octet-stream''
   \<and> writeFileResponse (mime_TypeByExtension []) ''README'' ''text'' =
       \<lparr>StatusCode = StatusOK,
        Header = [''Content-Type'' \<mapsto> ''application/octet-stream'',
                  ''Content-Disposition'' \<mapsto> ''inline; filename=\"README\"''],
        Body = Raw ''text''\<rparr>
   \<and> StatusCode (fst (GetFile (mime_TypeByExtension []) (NewFileHandler (Some MockCache_Cache) MockStorage_Storage)
                  \<lparr>PathValue_name = ''README'', ctx_Err = None\<rparr>
                  (NewWorld (MockCache_SetData ''README'' ''text'' NewMockCache) NewMockStorage))) = StatusOK
   \<and> (\<exists>served. fst (GetFile (mime_TypeByExtension []) (NewFileHandler (Some MockCache_Cache) MockStorage_Storage)
                  \<lparr>PathValue_name = ''README'', ctx_Err = None\<rparr>
                  (NewWorld (MockCache_SetData ''README'' ''text'' NewMockCache) NewMockStorage))
        = writeFileResponse (mime_TypeByExtension []) ''README'' served)"
proof -
  let ?T = "mime_TypeByExtension []"
  let ?h = "NewFileHandler (Some MockCache_Cache) MockStorage_Storage"
  let ?r = "\<lparr>PathValue_name = ''README'', ctx_Err = None\<rparr>"
  let ?w = "NewWorld (MockCache_SetData ''README'' ''text'' NewMockCache) NewMockStorage"
  have e1: "CHR ''.'' \<notin> set ''pdf'' \<and> CHR ''/'' \<notin> set ''pdf''" by simp
  have e2: "CHR ''.'' \<notin> set ''README'' \<and> CHR ''/'' \<notin> set ''README'' \<and> ?T [] = []"
    by (simp add: mime_TypeByExtension_empty)
  have a3: "StatusCode (fst (GetFile ?T ?h ?r ?w)) = StatusOK"
    by (simp add: GetFile_def world_defs mock_defs Let_def)
  have n1: "''docs/report.v2'' @ CHR ''.'' # ''pdf'' = ''docs/report.v2.pdf''" by simp
  have n2: "''v1.2'' @ CHR ''/'' # ''README'' = ''v1.2/README''" by simp
  note pdf = writeFileResponse_shaping [of ?T "''docs/report.v2.pdf''" "''%PDF''" "''pdf''" "''docs/report.v2''" ?h ?r ?w]
  note pln = writeFileResponse_shaping [of ?T "''README''" "''text''" "''README''" "''v1.2''" ?h ?r ?w]
  have pdf_ext: "Ext ''docs/report.v2.pdf'' = ''.pdf''"
    using pdf e1 unfolding n1 by blast
  have pdf_resp: "writeFileResponse ?T ''docs/report.v2.pdf'' ''%PDF'' =
       \<lparr>StatusCode = StatusOK,
        Header = [''Content-Type'' \<mapsto> ''application/pdf'',
                  ''Content-Disposition'' \<mapsto> ''inline; filename=\"docs/report.v2.pdf\"''],
        Body = Raw ''%PDF''\<rparr>"
    using pdf unfolding pdf_ext by (simp add: mime_TypeByExtension_pdf)
  have el: "Ext ''v1.2/README'' = [] \<and>
            Header (writeFileResponse ?T ''v1.2/README'' ''text'') ''Content-Type'' = Some ''application/octet-stream''"
    using pln e2 unfolding n2 by blast
  have ab: "Ext ''README'' = []" using pln e2 by blast
  have plain: "writeFileResponse ?T ''README'' ''text'' =
       \<lparr>StatusCode = StatusOK,
        Header = [''Content-Type'' \<mapsto> ''application/octet-stream'',
                  ''Content-Disposition'' \<mapsto> ''inline; filename=\"README\"''],
        Body = Raw ''text''\<rparr>"
    using pln unfolding ab by (simp add: mime_TypeByExtension_empty)
  have served: "\<exists>served. fst (GetFile ?T ?h ?r ?w) = writeFileResponse ?T ''README'' served"
    using pln a3 by simp
  from e1 e2 pdf_ext pdf_resp el plain a3 served show ?thesis by blast
qed

text \<open>
  C9. For the empty name \<open>GetFile\<close> answers 400 "filename is required" and changes
  nothing: no port method is called, nothing is logged, counted or started.
\<close>

theorem GetFile_empty_name_rejected:
  "GetFile T h \<lparr>PathValue_name = [], ctx_Err = ce\<rparr> w =
     (\<lparr>StatusCode = StatusBadRequest,
       Header = [''Content-Type'' \<mapsto> ''application/json''],
       Body = JSON \<lparr>Success = False, Message = ''filename is required'', Data = None\<rparr>\<rparr>, w)
   \<and> portCalls (snd (GetFile T h \<lparr>PathValue_name = [], ctx_Err = ce\<rparr> w)) = portCalls w
   \<and> cacheState (snd (GetFile T h \<lparr>PathValue_name = [], ctx_Err = ce\<rparr> w)) = cacheState w
   \<and> storageState (snd (GetFile T h \<lparr>PathValue_name = [], ctx_Err = ce\<rparr> w)) = storageState w"
  by (simp add: GetFile_def writeJSON_def)


text \<open>
  C10. With the mock storage answering (no \<open>GetError\<close>) and the cache absent or
  missing the name: a name stored with zero-length content is answered 200 with an
  empty body, and with a cache configured its write-back (of the name and the
  empty content) is started, which calls \<open>Set\<close> with them when it runs. The
  answer is 404 exactly when the name is absent from the stored objects (and the
  deadline has not passed), whatever the length of what is stored.
\<close>

theorem GetFile_empty_object_served:
  fixes w :: "('c, MockStorage) World" and w' :: "('c, MockStorage) World"
  assumes "PathValue_name r \<noteq> []" and "storage h = MockStorage_Storage"
    and "MockStorage_GetError (storageState w) = None"
    and "\<forall>c. cache h = Some c \<longrightarrow>
           \<not> fst (snd (fst (Cache_Get c (WithTimeout RequestContext (30 * Second))
                               (PathValue_name r) (cacheState w))))"
  shows "(MockStorage_objects (storageState w) (PathValue_name r) = Some [] \<longrightarrow>
            fst (GetFile T h r w) = writeFileResponse T (PathValue_name r) []
          \<and> StatusCode (fst (GetFile T h r w)) = StatusOK
          \<and> Body (fst (GetFile T h r w)) = Raw []
          \<and> goroutines (snd (GetFile T h r w)) =
              goroutines w @ (case cache h of None \<Rightarrow> [] | Some c \<Rightarrow> [WriteBack (PathValue_name r) []]))
       \<and> (\<forall>c. cache h = Some c \<longrightarrow>
            portCalls (run_Goroutine h (WriteBack (PathValue_name r) []) w') =
              portCalls w' @ [CacheSet (PathValue_name r) []]
          \<and> cacheState (run_Goroutine h (WriteBack (PathValue_name r) []) w') =
              snd (Cache_Set c (WithTimeout Background (30 * Second)) (PathValue_name r) [] (cacheState w'))
          \<and> storageState (run_Goroutine h (WriteBack (PathValue_name r) []) w') = storageState w')
       \<and> (StatusCode (fst (GetFile T h r w)) = StatusNotFound \<longleftrightarrow>
            MockStorage_objects (storageState w) (PathValue_name r) = None
          \<and> ctx_Err r \<noteq> Some DeadlineExceeded)"
proof -
  let ?ctx = "WithTimeout RequestContext (30 * Second)"
  let ?k = "PathValue_name r"
  note reach = GetFile_reaches_storage [OF assms(1) assms(4), of T]
  have get: "fst (Storage_GetObject (storage h) ?ctx ?k (storageState w)) =
               (case MockStorage_objects (storageState w) ?k of
                  None \<Rightarrow> ([], Some ErrObjectNotFound)
                | Some data \<Rightarrow> (data, None))"
    using assms(2,3)
    by (simp add: MockStorage_Storage_def MockStorage_GetObject_def Let_def split: option.split)
  have present: "MockStorage_objects (storageState w) ?k = Some [] \<longrightarrow>
            fst (GetFile T h r w) = writeFileResponse T ?k []
          \<and> StatusCode (fst (GetFile T h r w)) = StatusOK
          \<and> Body (fst (GetFile T h r w)) = Raw []
          \<and> goroutines (snd (GetFile T h r w)) =
              goroutines w @ (case cache h of None \<Rightarrow> [] | Some c \<Rightarrow> [WriteBack ?k []])"
    unfolding reach
    by (simp add: GetFile_storage_response GetFile_storage_goroutines get split: option.split)
  have wb: "\<forall>c. cache h = Some c \<longrightarrow>
            portCalls (run_Goroutine h (WriteBack ?k []) w') = portCalls w' @ [CacheSet ?k []]
          \<and> cacheState (run_Goroutine h (WriteBack ?k []) w') =
              snd (Cache_Set c (WithTimeout Background (30 * Second)) ?k [] (cacheState w'))
          \<and> storageState (run_Goroutine h (WriteBack ?k []) w') = storageState w'"
    by (simp add: run_Goroutine_def world_defs Let_def split_def split: option.split)
  have notfound: "StatusCode (fst (GetFile T h r w)) = StatusNotFound \<longleftrightarrow>
            MockStorage_objects (storageState w) ?k = None \<and> ctx_Err r \<noteq> Some DeadlineExceeded"
    unfolding reach
    by (simp add: GetFile_storage_response get isNotFoundError_ErrObjectNotFound split: option.split)
  from present wb notfound show ?thesis by blast
qed

theorem GetFile_empty_object_served_witness:
  "PathValue_name \<lparr>PathValue_name = ''empty.bin'', ctx_Err = None\<rparr> \<noteq> []
   \<and> storage (NewFileHandler (Some MockCache_Cache) MockStorage_Storage) = MockStorage_Storage
   \<and> cache (NewFileHandler (Some MockCache_Cache) MockStorage_Storage) = Some MockCache_Cache
   \<and> MockStorage_GetError (storageState
        (NewWorld NewMockCache (MockStorage_SetObject ''empty.bin'' [] NewMockStorage))) = None
   \<and> \<not> fst (snd (fst (Cache_Get MockCache_Cache (WithTimeout RequestContext (30 * Second)) ''empty.bin''
        (cacheState (NewWorld NewMockCache (MockStorage_SetObject ''empty.bin'' [] NewMockStorage))))))
   \<and> MockStorage_objects (storageState
        (NewWorld NewMockCache (MockStorage_SetObject ''empty.bin'' [] NewMockStorage))) ''empty.bin'' = Some []
   \<and> StatusCode (fst (GetFile (mime_TypeByExtension []) (NewFileHandler (Some MockCache_Cache) MockStorage_Storage)
        \<lparr>PathValue_name = ''empty.bin'', ctx_Err = None\<rparr>
        (NewWorld NewMockCache (MockStorage_SetObject ''empty.bin'' [] NewMockStorage)))) = StatusOK
   \<and> Body (fst (GetFile (mime_TypeByExtension []) (NewFileHandler (Some MockCache_Cache) MockStorage_Storage)
        \<lparr>PathValue_name = ''empty.bin'', ctx_Err = None\<rparr>
        (NewWorld NewMockCache (MockStorage_SetObject ''empty.bin'' [] NewMockStorage)))) = Raw []
   \<and> goroutines (snd (GetFile (mime_TypeByExtension []) (NewFileHandler (Some MockCache_Cache) MockStorage_Storage)
        \<lparr>PathValue_name = ''empty.bin'', ctx_Err = None\<rparr>
        (NewWorld NewMockCache (MockStorage_SetObject ''empty.bin'' [] NewMockStorage))))
       = [WriteBack ''empty.bin'' []]
   \<and> MockCache_data (cacheState
        (run_Goroutine (NewFileHandler (Some MockCache_Cache) MockStorage_Storage) (WriteBack ''empty.bin'' [])
           (snd (GetFile (mime_TypeByExtension []) (NewFileHandler (Some MockCache_Cache) MockStorage_Storage)
              \<lparr>PathValue_name = ''empty.bin'', ctx_Err = None\<rparr>
              (NewWorld NewMockCache (MockStorage_SetObject ''empty.bin'' [] NewMockStorage))))))
        ''empty.bin'' = Some []
   \<and> StatusCode (fst (GetFile (mime_TypeByExtension []) (NewFileHandler (Some MockCache_Cache) MockStorage_Storage)
        \<lparr>PathValue_name = ''empty.bin'', ctx_Err = None\<rparr>
        (NewWorld NewMockCache NewMockStorage))) = StatusNotFound"
proof -
  let ?T = "mime_TypeByExtension []"
  let ?r = "\<lparr>PathValue_name = ''empty.bin'', ctx_Err = None\<rparr>"
  let ?h = "NewFileHandler (Some MockCache_Cache) MockStorage_Storage"
  let ?w = "NewWorld NewMockCache (MockStorage_SetObject ''empty.bin'' [] NewMockStorage)"
  let ?we = "NewWorld NewMockCache NewMockStorage"
  let ?w1 = "snd (GetFile ?T ?h ?r ?w)"
  let ?ctx = "WithTimeout RequestContext (30 * Second)"
  have a1: "PathValue_name ?r \<noteq> []" by simp
  have a2: "storage ?h = MockStorage_Storage" by (simp add: NewFileHandler_def)
  have a3: "MockStorage_GetError (storageState ?w) = None"
    and a3e: "MockStorage_GetError (storageState ?we) = None" by (simp_all add: mock_defs)
  have ch: "cache ?h = Some MockCache_Cache" by (simp add: NewFileHandler_def)
  have m: "\<not> fst (snd (fst (Cache_Get MockCache_Cache ?ctx ''empty.bin'' (cacheState ?w))))"
    and me: "\<not> fst (snd (fst (Cache_Get MockCache_Cache ?ctx ''empty.bin'' (cacheState ?we))))"
    by (simp_all add: mock_defs)
  have a4: "\<forall>c. cache ?h = Some c \<longrightarrow> \<not> fst (snd (fst (Cache_Get c ?ctx (PathValue_name ?r) (cacheState ?w))))"
    and a4e: "\<forall>c. cache ?h = Some c \<longrightarrow> \<not> fst (snd (fst (Cache_Get c ?ctx (PathValue_name ?r) (cacheState ?we))))"
    using m me by (simp_all add: ch)
  have ob: "MockStorage_objects (storageState ?w) ''empty.bin'' = Some []"
    and obe: "MockStorage_objects (storageState ?we) ''empty.bin'' = None" by (simp_all add: mock_defs)
  have gr: "goroutines ?w = []" by (simp add: NewWorld_def)
  note stored = GetFile_empty_object_served [OF a1 a2 a3 a4, where T = ?T and w' = ?w1]
  note absent = GetFile_empty_object_served [OF a1 a2 a3e a4e, where T = ?T and w' = ?we]
  have served: "StatusCode (fst (GetFile ?T ?h ?r ?w)) = StatusOK"
    "Body (fst (GetFile ?T ?h ?r ?w)) = Raw []"
    "goroutines ?w1 = [WriteBack ''empty.bin'' []]"
    using stored ob gr ch by simp_all
  have set: "cacheState (run_Goroutine ?h (WriteBack ''empty.bin'' []) ?w1) =
               snd (Cache_Set MockCache_Cache (WithTimeout Background (30 * Second)) ''empty.bin'' []
                      (cacheState ?w1))"
    using stored ch by simp
  have cs: "MockCache_SetError (cacheState ?w1) = None"
    by (simp add: GetFile_def GetFile_storage_def world_defs mock_defs Let_def)
  have written: "MockCache_data (cacheState (run_Goroutine ?h (WriteBack ''empty.bin'' []) ?w1))
                   ''empty.bin'' = Some []"
    unfolding set using cs by (simp add: MockCache_Cache_def MockCache_Set_def Let_def)
  have nf: "StatusCode (fst (GetFile ?T ?h ?r ?we)) = StatusNotFound"
    using absent obe by simp
  from a1 a2 ch a3 m ob served written nf show ?thesis by simp
qed

end
